theory Spec2Isabelle
  imports Main
begin

section \<open>Python values, errors and the runtime environment\<close>

text \<open>
  The module \<^verbatim>\<open>utils/kubernetes/kubeutil.py\<close> works on dynamically typed values: the
  check configuration (parsed YAML) and the bodies of HTTP responses (parsed JSON).
  Both are values of \<open>pyval\<close>. A dictionary is an association list whose order is the
  iteration order of the dictionary and whose keys are distinct; lookups take the first
  binding. A character of a string is a code point below 256. Floating point numbers and
  text with other characters are left out.
\<close>

datatype pyval =
    PNone
  | PBool bool
  | PInt int
  | PStr string
  | PList "pyval list"
  | PDict "(string \<times> pyval) list"

text \<open>Every \<^verbatim>\<open>raise\<close> of the module and of the libraries it calls is a value of \<open>error\<close>.\<close>

datatype error =
    IOError
  | TypeError
  | AttributeError
  | KeyError
  | IndexError
  | ValueError
  | HTTPError int
  | ConnectionError
  | Timeout
  | Exception string

text \<open>Truth value testing, \<^verbatim>\<open>x or y\<close>.\<close>

fun py_truthy :: "pyval \<Rightarrow> bool" where
  "py_truthy PNone = False"
| "py_truthy (PBool b) = b"
| "py_truthy (PInt i) = (i \<noteq> 0)"
| "py_truthy (PStr s) = (s \<noteq> [])"
| "py_truthy (PList xs) = (xs \<noteq> [])"
| "py_truthy (PDict d) = (d \<noteq> [])"

definition py_or :: "pyval \<Rightarrow> pyval \<Rightarrow> pyval" where
  "py_or x y = (if py_truthy x then x else y)"

text \<open>\<^verbatim>\<open>d.get(k, default)\<close> on a dictionary.\<close>

definition dict_get :: "(string \<times> pyval) list \<Rightarrow> string \<Rightarrow> pyval \<Rightarrow> pyval" where
  "dict_get d k dflt = (case map_of d k of None \<Rightarrow> dflt | Some v \<Rightarrow> v)"

text \<open>\<^verbatim>\<open>x.get(k, default)\<close> on any value: only a dictionary has the method.\<close>

fun py_get :: "pyval \<Rightarrow> string \<Rightarrow> pyval \<Rightarrow> error + pyval" where
  "py_get (PDict d) k dflt = Inr (dict_get d k dflt)"
| "py_get _ k dflt = Inl AttributeError"

text \<open>\<^verbatim>\<open>x[k]\<close> with a string key.\<close>

fun py_getitem :: "pyval \<Rightarrow> string \<Rightarrow> error + pyval" where
  "py_getitem (PDict d) k = (case map_of d k of None \<Rightarrow> Inl KeyError | Some v \<Rightarrow> Inr v)"
| "py_getitem _ k = Inl TypeError"

text \<open>\<^verbatim>\<open>x[0]\<close>: a dictionary parsed from JSON or YAML text here has string keys only.\<close>

fun py_getitem0 :: "pyval \<Rightarrow> error + pyval" where
  "py_getitem0 (PList []) = Inl IndexError"
| "py_getitem0 (PList (x # xs)) = Inr x"
| "py_getitem0 (PStr []) = Inl IndexError"
| "py_getitem0 (PStr (c # cs)) = Inr (PStr [c])"
| "py_getitem0 (PDict d) = Inl KeyError"
| "py_getitem0 _ = Inl TypeError"

fun py_len :: "pyval \<Rightarrow> error + nat" where
  "py_len (PList xs) = Inr (length xs)"
| "py_len (PDict d) = Inr (length d)"
| "py_len (PStr s) = Inr (length s)"
| "py_len _ = Inl TypeError"

text \<open>The elements a \<^verbatim>\<open>for\<close> loop visits.\<close>

fun py_iter :: "pyval \<Rightarrow> error + pyval list" where
  "py_iter (PList xs) = Inr xs"
| "py_iter (PDict d) = Inr (map (\<lambda>kv. PStr (fst kv)) d)"
| "py_iter (PStr s) = Inr (map (\<lambda>c. PStr [c]) s)"
| "py_iter _ = Inl TypeError"

text \<open>
  \<^verbatim>\<open>s.startswith(p)\<close>, \<^verbatim>\<open>s.lower()\<close>, \<^verbatim>\<open>s.lstrip(c)\<close>, \<^verbatim>\<open>s.split(c)\<close>. The text of a response is
  Unicode text, and \<^verbatim>\<open>lower\<close> maps every capital letter to its small letter: below code
  point 256 these are A to Z and the accented capitals U+00C0 to U+00DE without the
  multiplication sign U+00D7, each 32 below its small letter.
\<close>

definition startswith :: "string \<Rightarrow> string \<Rightarrow> bool" where
  "startswith s p = (take (length p) s = p)"

definition latin1_upper :: string where
  "latin1_upper = [CHR 0xC0, CHR 0xC1, CHR 0xC2, CHR 0xC3, CHR 0xC4, CHR 0xC5, CHR 0xC6, CHR 0xC7,
     CHR 0xC8, CHR 0xC9, CHR 0xCA, CHR 0xCB, CHR 0xCC, CHR 0xCD, CHR 0xCE, CHR 0xCF,
     CHR 0xD0, CHR 0xD1, CHR 0xD2, CHR 0xD3, CHR 0xD4, CHR 0xD5, CHR 0xD6, CHR 0xD8,
     CHR 0xD9, CHR 0xDA, CHR 0xDB, CHR 0xDC, CHR 0xDD, CHR 0xDE]"

definition latin1_lower :: string where
  "latin1_lower = [CHR 0xE0, CHR 0xE1, CHR 0xE2, CHR 0xE3, CHR 0xE4, CHR 0xE5, CHR 0xE6, CHR 0xE7,
     CHR 0xE8, CHR 0xE9, CHR 0xEA, CHR 0xEB, CHR 0xEC, CHR 0xED, CHR 0xEE, CHR 0xEF,
     CHR 0xF0, CHR 0xF1, CHR 0xF2, CHR 0xF3, CHR 0xF4, CHR 0xF5, CHR 0xF6, CHR 0xF8,
     CHR 0xF9, CHR 0xFA, CHR 0xFB, CHR 0xFC, CHR 0xFD, CHR 0xFE]"

definition lower_char :: "char \<Rightarrow> char" where
  "lower_char c =
     (case map_of (zip (''ABCDEFGHIJKLMNOPQRSTUVWXYZ'' @ latin1_upper)
                       (''abcdefghijklmnopqrstuvwxyz'' @ latin1_lower)) c of
        Some l \<Rightarrow> l
      | None \<Rightarrow> c)"

definition lower :: "string \<Rightarrow> string" where
  "lower s = map lower_char s"

definition lstrip :: "char \<Rightarrow> string \<Rightarrow> string" where
  "lstrip c s = dropWhile (\<lambda>x. x = c) s"

fun split :: "char \<Rightarrow> string \<Rightarrow> string list" where
  "split c [] = [[]]"
| "split c (x # xs) =
     (if x = c then [] # split c xs
      else (case split c xs of [] \<Rightarrow> [[x]] | p # ps \<Rightarrow> (x # p) # ps))"

text \<open>\<^verbatim>\<open>needle in s\<close> for two strings: \<open>needle\<close> occurs in \<open>s\<close>.\<close>

fun str_contains :: "string \<Rightarrow> string \<Rightarrow> bool" where
  "str_contains needle [] = (needle = [])"
| "str_contains needle (c # cs) =
     (take (length needle) (c # cs) = needle \<or> str_contains needle cs)"

text \<open>\<^verbatim>\<open>k in x\<close> for a string \<open>k\<close>.\<close>

fun py_contains :: "string \<Rightarrow> pyval \<Rightarrow> error + bool" where
  "py_contains k (PDict d) = Inr (k \<in> set (map fst d))"
| "py_contains k (PList xs) = Inr (PStr k \<in> set xs)"
| "py_contains k (PStr s) = Inr (str_contains k s)"
| "py_contains k _ = Inl TypeError"

text \<open>Decimal digits of an integer, as \<^verbatim>\<open>str\<close> prints them.\<close>

function str_nat :: "nat \<Rightarrow> string" where
  "str_nat n =
     (if n < 10 then [''0123456789'' ! n]
      else str_nat (n div 10) @ [''0123456789'' ! (n mod 10)])"
  by pat_completeness auto
termination
  by (relation "measure (\<lambda>n. n)") auto

declare str_nat.simps [simp del]

definition str_int :: "int \<Rightarrow> string" where
  "str_int i = (if i < 0 then CHR ''-'' # str_nat (nat (- i)) else str_nat (nat i))"

text \<open>\<^verbatim>\<open>'%d' % x\<close>: a number is required (\<^verbatim>\<open>bool\<close> is a subclass of \<^verbatim>\<open>int\<close>).\<close>

fun format_d :: "pyval \<Rightarrow> error + string" where
  "format_d (PInt i) = Inr (str_int i)"
| "format_d (PBool b) = Inr (if b then ''1'' else ''0'')"
| "format_d _ = Inl TypeError"

text \<open>Sequencing of fallible steps: the first error ends the computation.\<close>

definition and_then :: "error + 'a \<Rightarrow> ('a \<Rightarrow> error + 'b) \<Rightarrow> error + 'b" where
  "and_then r f = (case r of Inl e \<Rightarrow> Inl e | Inr x \<Rightarrow> f x)"

subsection \<open>HTTP requests and the outside world\<close>

text \<open>
  The keyword arguments of one \<^verbatim>\<open>requests.get\<close> call. \<open>req_headers = None\<close> is
  \<^verbatim>\<open>headers=None\<close>; \<open>req_cert = None\<close> is \<^verbatim>\<open>cert=None\<close> or no \<^verbatim>\<open>cert\<close> argument.
\<close>

record request =
  req_url :: string
  req_timeout :: int
  req_verify :: pyval
  req_cert :: "(pyval \<times> pyval) option"
  req_headers :: "(string \<times> string) list option"
  req_params :: "(string \<times> pyval) list"

text \<open>
  What the module reads of a response: the status code, and the body as
  \<^verbatim>\<open>r.json()\<close> parses it (\<open>None\<close> when the body is not JSON).
\<close>

record response =
  status_code :: int
  json_body :: "pyval option"

text \<open>
  Everything outside the module, at the time of one call: the process environment, the
  file system, the container runtime's hostname (\<^verbatim>\<open>DockerUtil().get_hostname()\<close>), the
  network behind \<^verbatim>\<open>requests.get\<close> (\<open>Inl\<close> for a connection error, a timeout or any other
  exception of the call), the library functions \<^verbatim>\<open>urljoin\<close> and \<^verbatim>\<open>urlencode\<close>, the text
  \<^verbatim>\<open>str\<close> gives for a list or a dictionary, and the result of loading the check's
  configuration file (\<^verbatim>\<open>check_yaml(get_conf_path('kubernetes'))\<close>). These are parameters:
  every theorem below holds for each choice of them.
\<close>

record world =
  environ :: "string \<Rightarrow> string option"
  path_exists :: "string \<Rightarrow> bool"
  read_file :: "string \<Rightarrow> string option"
  docker_get_hostname :: string
  http_get :: "request \<Rightarrow> error + response"
  urljoin :: "string \<Rightarrow> string \<Rightarrow> string"
  urlencode :: "(string \<times> string) list \<Rightarrow> string"
  str_container :: "pyval \<Rightarrow> string"
  check_config :: "error + pyval"

text \<open>\<^verbatim>\<open>'%s' % x\<close>, \<^verbatim>\<open>'{}'.format(x)\<close>.\<close>

fun py_str :: "world \<Rightarrow> pyval \<Rightarrow> string" where
  "py_str w PNone = ''None''"
| "py_str w (PBool b) = (if b then ''True'' else ''False'')"
| "py_str w (PInt i) = str_int i"
| "py_str w (PStr s) = s"
| "py_str w (PList xs) = str_container w (PList xs)"
| "py_str w (PDict d) = str_container w (PDict d)"

text \<open>\<^verbatim>\<open>os.environ.get(name)\<close>.\<close>

definition environ_get :: "world \<Rightarrow> string \<Rightarrow> pyval" where
  "environ_get w name = (case environ w name of None \<Rightarrow> PNone | Some s \<Rightarrow> PStr s)"

text \<open>\<^verbatim>\<open>os.path.exists(p)\<close>: \<^verbatim>\<open>os.stat\<close> raises \<^verbatim>\<open>TypeError\<close> for a path that is no string.\<close>

fun os_path_exists :: "world \<Rightarrow> pyval \<Rightarrow> error + bool" where
  "os_path_exists w (PStr p) = Inr (path_exists w p)"
| "os_path_exists w _ = Inl TypeError"

text \<open>\<^verbatim>\<open>r.json()\<close> and \<^verbatim>\<open>r.raise_for_status()\<close> of the \<^verbatim>\<open>requests\<close> library: the latter
  raises \<^verbatim>\<open>HTTPError\<close> for a status code from 400 to 599.\<close>

definition json :: "response \<Rightarrow> error + pyval" where
  "json r = (case json_body r of None \<Rightarrow> Inl ValueError | Some v \<Rightarrow> Inr v)"

definition raise_for_status :: "response \<Rightarrow> error + unit" where
  "raise_for_status r =
     (if 400 \<le> status_code r \<and> status_code r < 600 then Inl (HTTPError (status_code r))
      else Inr ())"

section \<open>The class KubeUtil\<close>

definition DEFAULT_TLS_VERIFY :: pyval where "DEFAULT_TLS_VERIFY = PBool True"
definition DEFAULT_METHOD :: pyval where "DEFAULT_METHOD = PStr ''http''"
definition KUBELET_HEALTH_PATH :: string where "KUBELET_HEALTH_PATH = ''/healthz''"
definition MACHINE_INFO_PATH :: string where "MACHINE_INFO_PATH = ''/api/v1.3/machine/''"
definition METRICS_PATH :: string where "METRICS_PATH = ''/api/v1.3/subcontainers/''"
definition PODS_LIST_PATH :: string where "PODS_LIST_PATH = ''/pods/''"
definition DEFAULT_CADVISOR_PORT :: pyval where "DEFAULT_CADVISOR_PORT = PInt 4194"
definition DEFAULT_HTTP_KUBELET_PORT :: pyval where "DEFAULT_HTTP_KUBELET_PORT = PInt 10255"
definition DEFAULT_HTTPS_KUBELET_PORT :: pyval where "DEFAULT_HTTPS_KUBELET_PORT = PInt 10250"
definition DEFAULT_MASTER_NAME :: pyval where "DEFAULT_MASTER_NAME = PStr ''kubernetes''"
definition CA_CRT_PATH :: string where
  "CA_CRT_PATH = ''/run/secrets/kubernetes.io/serviceaccount/ca.crt''"
definition AUTH_TOKEN_PATH :: string where
  "AUTH_TOKEN_PATH = ''/run/secrets/kubernetes.io/serviceaccount/token''"

text \<open>
  The dictionary \<^verbatim>\<open>self.tls_settings\<close>: the key \<^verbatim>\<open>'kubelet_client_cert'\<close> is optional, the
  key \<^verbatim>\<open>'verify'\<close> is always set by \<^verbatim>\<open>_init_tls_settings\<close>.
\<close>

record tls_context =
  kubelet_client_cert :: "(pyval \<times> pyval) option"
  verify :: pyval

text \<open>
  The attributes of an instance. Those assigned after the kubelet has been located are
  \<open>None\<close> until then.
\<close>

record kubeutil =
  method_attr :: pyval
  node_ip :: pyval
  node_name :: pyval
  host_name :: pyval
  kubernetes_api_url :: string
  tls_settings :: tls_context
  kubelet_api_url :: "string option"
  kubelet_host :: "string option"
  pods_list_url :: "string option"
  kube_health_url :: "string option"
  cadvisor_port :: "pyval option"
  cadvisor_url :: "string option"
  metrics_url :: "string option"
  machine_info_url :: "string option"
  last_event_collection_ts :: "int option"

subsection \<open>TLS settings\<close>

text \<open>\<^verbatim>\<open>_init_tls_settings\<close>; \<open>instance\<close> is the configuration dictionary.\<close>

definition init_tls_settings :: "world \<Rightarrow> (string \<times> pyval) list \<Rightarrow> error + tls_context" where
  "init_tls_settings w instance =
     (let client_crt = dict_get instance ''kubelet_client_crt'' PNone;
          client_key = dict_get instance ''kubelet_client_key'' PNone;
          cert = dict_get instance ''kubelet_cert'' PNone;
          vfy = (if py_truthy cert then cert
                 else dict_get instance ''kubelet_tls_verify'' DEFAULT_TLS_VERIFY)
      in if py_truthy client_crt \<and> py_truthy client_key then
           and_then (os_path_exists w client_crt) (\<lambda>crt_exists.
             if crt_exists then
               and_then (os_path_exists w client_key) (\<lambda>key_exists.
                 if key_exists
                 then Inr \<lparr>kubelet_client_cert = Some (client_crt, client_key), verify = vfy\<rparr>
                 else Inr \<lparr>kubelet_client_cert = None, verify = vfy\<rparr>)
             else Inr \<lparr>kubelet_client_cert = None, verify = vfy\<rparr>)
         else Inr \<lparr>kubelet_client_cert = None, verify = vfy\<rparr>)"

subsection \<open>Requests\<close>

text \<open>\<^verbatim>\<open>get_auth_token\<close>: the token file is read at every call; an \<^verbatim>\<open>IOError\<close> gives \<^verbatim>\<open>None\<close>.\<close>

definition get_auth_token :: "world \<Rightarrow> pyval" where
  "get_auth_token w =
     (case read_file w AUTH_TOKEN_PATH of Some s \<Rightarrow> PStr s | None \<Rightarrow> PNone)"

text \<open>
  \<^verbatim>\<open>perform_kubelet_query\<close>. The result is the outcome of \<^verbatim>\<open>requests.get\<close> and the list
  of the requests issued.
\<close>

definition kubelet_request :: "world \<Rightarrow> kubeutil \<Rightarrow> string \<Rightarrow> bool \<Rightarrow> int \<Rightarrow> request" where
  "kubelet_request w self url verbose timeout =
     (let tls_context = tls_settings self;
          cert = kubelet_client_cert tls_context;
          vfy = verify tls_context;
          headers =
            (if cert = None \<and> startswith (lower url) ''https''
             then Some [(''Authorization'', ''Bearer '' @ py_str w (get_auth_token w))]
             else None)
      in \<lparr>req_url = url, req_timeout = timeout, req_verify = vfy, req_cert = cert,
          req_headers = headers, req_params = [(''verbose'', PBool verbose)]\<rparr>)"

definition perform_kubelet_query ::
  "world \<Rightarrow> kubeutil \<Rightarrow> string \<Rightarrow> bool \<Rightarrow> int \<Rightarrow> (error + response) \<times> request list" where
  "perform_kubelet_query w self url verbose timeout =
     (let req = kubelet_request w self url verbose timeout in (http_get w req, [req]))"

text \<open>\<^verbatim>\<open>retrieve_json_auth\<close>; \<open>vfy = PNone\<close> is the default \<^verbatim>\<open>verify=None\<close>.\<close>

definition json_auth_request :: "world \<Rightarrow> string \<Rightarrow> pyval \<Rightarrow> int \<Rightarrow> pyval \<Rightarrow> request" where
  "json_auth_request w url auth_token timeout vfy =
     (let vfy' = (if vfy = PNone
                  then (if path_exists w CA_CRT_PATH then PStr CA_CRT_PATH else PBool False)
                  else vfy);
          headers = [(''Authorization'', ''Bearer '' @ py_str w auth_token)]
      in \<lparr>req_url = url, req_timeout = timeout, req_verify = vfy', req_cert = None,
          req_headers = Some headers, req_params = []\<rparr>)"

definition retrieve_json_auth ::
  "world \<Rightarrow> string \<Rightarrow> pyval \<Rightarrow> int \<Rightarrow> pyval \<Rightarrow> (error + pyval) \<times> request list" where
  "retrieve_json_auth w url auth_token timeout vfy =
     (let req = json_auth_request w url auth_token timeout vfy
      in (and_then (http_get w req) (\<lambda>r. and_then (raise_for_status r) (\<lambda>_. json r)), [req]))"

subsection \<open>Locating the kubelet\<close>

text \<open>
  \<^verbatim>\<open>get_node_hostname\<close>. \<open>node_hostname_of\<close> is the part after the apiserver's answer has
  been parsed, \<open>find_hostname\<close> the loop over the addresses.
\<close>

fun find_hostname :: "pyval list \<Rightarrow> error + pyval" where
  "find_hostname [] = Inr PNone"
| "find_hostname (address # rest) =
     and_then (py_get address ''type'' PNone) (\<lambda>t.
       if t = PStr ''Hostname'' then py_getitem address ''address''
       else find_hostname rest)"

definition node_hostname_of :: "pyval \<Rightarrow> error + pyval" where
  "node_hostname_of node =
     and_then (py_getitem node ''items'') (\<lambda>items.
     and_then (py_len items) (\<lambda>n.
       if n \<noteq> 1 then Inr PNone
       else
         and_then (py_get (py_or node (PDict [])) ''items'' (PList [PDict []])) (\<lambda>items'.
         and_then (py_getitem0 items') (\<lambda>item.
         and_then (py_get item ''status'' (PDict [])) (\<lambda>status.
         and_then (py_get status ''addresses'' (PList [])) (\<lambda>addresses.
         and_then (py_iter addresses) find_hostname))))))"

definition node_hostname_url :: "world \<Rightarrow> kubeutil \<Rightarrow> pyval \<Rightarrow> string" where
  "node_hostname_url w self host =
     (let node_filter = [(''labelSelector'', ''kubernetes.io/hostname='' @ py_str w host)]
      in kubernetes_api_url self @ ''/nodes?'' @ urlencode w node_filter)"

definition get_node_hostname ::
  "world \<Rightarrow> kubeutil \<Rightarrow> pyval \<Rightarrow> (error + pyval) \<times> request list" where
  "get_node_hostname w self host =
     (let (r, tr) = retrieve_json_auth w (node_hostname_url w self host) (get_auth_token w)
                      10 PNone
      in (and_then r node_hostname_of, tr))"

text \<open>
  \<^verbatim>\<open>_locate_kubelet\<close>. \<open>locate_host\<close> is its first part, the choice of the host;
  \<open>no_auth_url\<close> and \<open>https_url\<close> are the two base URLs it builds.
\<close>

definition locate_host ::
  "world \<Rightarrow> kubeutil \<Rightarrow> (string \<times> pyval) list \<Rightarrow> pyval \<times> request list" where
  "locate_host w self instance =
     (let host = py_or (environ_get w ''KUBERNETES_KUBELET_HOST'')
                       (dict_get instance ''host'' PNone)
      in if \<not> py_truthy host then
           (let docker_hostname = PStr (docker_get_hostname w)
            in if py_truthy (verify (tls_settings self)) then
                 (case get_node_hostname w self docker_hostname of
                    (Inr k8s_hostname, tr) \<Rightarrow> (py_or k8s_hostname docker_hostname, tr)
                  | (Inl ex, tr) \<Rightarrow> (docker_hostname, tr))
               else (docker_hostname, []))
         else (host, []))"

definition no_auth_url :: "world \<Rightarrow> pyval \<Rightarrow> (string \<times> pyval) list \<Rightarrow> string" where
  "no_auth_url w host instance =
     (let port = dict_get instance ''kubelet_port'' DEFAULT_HTTP_KUBELET_PORT
      in ''http://'' @ py_str w host @ '':'' @ py_str w port)"

definition https_url :: "world \<Rightarrow> pyval \<Rightarrow> (string \<times> pyval) list \<Rightarrow> string" where
  "https_url w host instance =
     (let port = dict_get instance ''kubelet_port'' DEFAULT_HTTPS_KUBELET_PORT
      in ''https://'' @ py_str w host @ '':'' @ py_str w port)"

definition locate_kubelet ::
  "world \<Rightarrow> kubeutil \<Rightarrow> (string \<times> pyval) list \<Rightarrow> (error + string) \<times> request list" where
  "locate_kubelet w self instance =
     (let (host, tr0) = locate_host w self instance;
          test_url = urljoin w (no_auth_url w host instance) KUBELET_HEALTH_PATH;
          (r1, tr1) = perform_kubelet_query w self test_url True 10
      in case r1 of
           Inr _ \<Rightarrow> (Inr (no_auth_url w host instance), tr0 @ tr1)
         | Inl _ \<Rightarrow>
             (let test_url = urljoin w (https_url w host instance) KUBELET_HEALTH_PATH;
                  (r2, tr2) = perform_kubelet_query w self test_url True 10
              in case r2 of
                   Inl ex \<Rightarrow> (Inl ex, tr0 @ tr1 @ tr2)
                 | Inr _ \<Rightarrow> (Inr (https_url w host instance), tr0 @ tr1 @ tr2)))"

subsection \<open>Construction\<close>

text \<open>
  \<^verbatim>\<open>__init__\<close>. \<open>load_instance\<close> is the part that runs when no instance is given
  (\<open>instance = PNone\<close>); \<open>new_self\<close> is the object as it stands when the kubelet is looked
  for; \<open>init\<close> gives the finished instance, or the error that leaves the constructor, and
  the requests issued.
\<close>

definition load_instance :: "world \<Rightarrow> pyval" where
  "load_instance w =
     (case and_then (check_config w) (\<lambda>c. and_then (py_getitem c ''instances'') py_getitem0) of
        Inl ex \<Rightarrow> PDict []
      | Inr i \<Rightarrow> i)"

definition new_self :: "world \<Rightarrow> (string \<times> pyval) list \<Rightarrow> tls_context \<Rightarrow> kubeutil" where
  "new_self w instance tls =
     \<lparr>method_attr = dict_get instance ''method'' DEFAULT_METHOD,
      node_ip = PNone, node_name = PNone,
      host_name = environ_get w ''HOSTNAME'',
      kubernetes_api_url =
        ''https://'' @ py_str w (py_or (environ_get w ''KUBERNETES_SERVICE_HOST'')
                                       DEFAULT_MASTER_NAME) @ ''/api/v1'',
      tls_settings = tls,
      kubelet_api_url = None, kubelet_host = None, pods_list_url = None,
      kube_health_url = None, cadvisor_port = None, cadvisor_url = None,
      metrics_url = None, machine_info_url = None, last_event_collection_ts = None\<rparr>"

definition no_method_message :: string where
  "no_method_message = ''Couldn'' @ [CHR 0x27] @ ''t find a method to connect to kubelet.''"

definition init :: "world \<Rightarrow> pyval \<Rightarrow> (error + kubeutil) \<times> request list" where
  "init w instance =
     (case (if instance = PNone then load_instance w else instance) of
        PDict inst \<Rightarrow>
          (case init_tls_settings w inst of
             Inl ex \<Rightarrow> (Inl ex, [])
           | Inr tls \<Rightarrow>
               (let self = new_self w inst tls;
                    (r, tr) = locate_kubelet w self inst
                in case r of
                     Inl ex \<Rightarrow> (Inl ex, tr)
                   | Inr url \<Rightarrow>
                       if url = [] then (Inl (Exception no_method_message), tr)
                       else
                         (case split (CHR '':'') url of
                            p # h # ps \<Rightarrow>
                              (let host = lstrip (CHR ''/'') h;
                                   port = dict_get inst ''port'' DEFAULT_CADVISOR_PORT
                               in case format_d port of
                                    Inl ex \<Rightarrow> (Inl ex, tr)
                                  | Inr d \<Rightarrow>
                                      (let curl = py_str w (method_attr self) @ ''://'' @ host
                                                    @ '':'' @ d
                                       in (Inr (self\<lparr>kubelet_api_url := Some url,
                                             kubelet_host := Some host,
                                             pods_list_url := Some (urljoin w url PODS_LIST_PATH),
                                             kube_health_url :=
                                               Some (urljoin w url KUBELET_HEALTH_PATH),
                                             cadvisor_port := Some port,
                                             cadvisor_url := Some curl,
                                             metrics_url := Some (urljoin w curl METRICS_PATH),
                                             machine_info_url :=
                                               Some (urljoin w curl MACHINE_INFO_PATH),
                                             last_event_collection_ts := Some 0\<rparr>), tr)))
                          | _ \<Rightarrow> (Inl IndexError, tr))))
      | _ \<Rightarrow> (Inl AttributeError, []))"

subsection \<open>Pod list, labels and node identity\<close>

text \<open>\<^verbatim>\<open>retrieve_pods_list\<close>: reading an attribute that was never assigned raises.\<close>

definition retrieve_pods_list :: "world \<Rightarrow> kubeutil \<Rightarrow> (error + pyval) \<times> request list" where
  "retrieve_pods_list w self =
     (case pods_list_url self of
        None \<Rightarrow> (Inl AttributeError, [])
      | Some url \<Rightarrow>
          (let (r, tr) = perform_kubelet_query w self url True 10 in (and_then r json, tr)))"

text \<open>
  \<^verbatim>\<open>extract_kube_labels\<close>. The \<^verbatim>\<open>defaultdict(list)\<close> is a map; \<open>dd_get\<close> reads it the way
  a \<^verbatim>\<open>defaultdict\<close> answers for a key (the empty list when the key has no entry).
  \<open>add_labels\<close> is the inner loop over the labels of one pod, \<open>extract_pods\<close> the loop
  over the pods.
\<close>

definition dd_get :: "(string \<Rightarrow> string list option) \<Rightarrow> string \<Rightarrow> string list" where
  "dd_get kube_labels key = (case kube_labels key of None \<Rightarrow> [] | Some ts \<Rightarrow> ts)"

fun add_labels ::
  "world \<Rightarrow> string \<Rightarrow> string list \<Rightarrow> (string \<times> pyval) list \<Rightarrow>
   (string \<Rightarrow> string list option) \<Rightarrow> (string \<Rightarrow> string list option)" where
  "add_labels w key excluded_keys [] kube_labels = kube_labels"
| "add_labels w key excluded_keys ((k, v) # rest) kube_labels =
     (if k \<in> set excluded_keys then add_labels w key excluded_keys rest kube_labels
      else add_labels w key excluded_keys rest
             (kube_labels(key \<mapsto> dd_get kube_labels key @ [''kube_'' @ k @ '':'' @ py_str w v])))"

fun extract_pods ::
  "world \<Rightarrow> string list \<Rightarrow> pyval list \<Rightarrow> (string \<Rightarrow> string list option) \<Rightarrow>
   error + (string \<Rightarrow> string list option)" where
  "extract_pods w excluded_keys [] kube_labels = Inr kube_labels"
| "extract_pods w excluded_keys (pod # rest) kube_labels =
     and_then (py_get pod ''metadata'' (PDict [])) (\<lambda>metadata.
     and_then (py_get metadata ''name'' PNone) (\<lambda>name.
     and_then (py_get metadata ''namespace'' PNone) (\<lambda>namespace.
     and_then (py_get metadata ''labels'' PNone) (\<lambda>labels.
       if py_truthy name \<and> py_truthy labels \<and> py_truthy namespace then
         (case labels of
            PDict ls \<Rightarrow>
              extract_pods w excluded_keys rest
                (add_labels w (py_str w namespace @ ''/'' @ py_str w name) excluded_keys ls
                   kube_labels)
          | _ \<Rightarrow> Inl AttributeError)
       else extract_pods w excluded_keys rest kube_labels))))"

definition extract_kube_labels ::
  "world \<Rightarrow> pyval \<Rightarrow> string list option \<Rightarrow> error + (string \<Rightarrow> string list option)" where
  "extract_kube_labels w pods_list excluded_keys =
     (let excluded = (case excluded_keys of None \<Rightarrow> [] | Some ks \<Rightarrow> ks)
      in and_then (py_get pods_list ''items'' PNone) (\<lambda>items.
         and_then (py_iter (py_or items (PList []))) (\<lambda>pod_items.
           extract_pods w excluded pod_items Map.empty)))"

text \<open>
  \<^verbatim>\<open>_fetch_host_data\<close>: the new state of the instance, and the exception that leaves the
  method, if any. \<open>scan_pods\<close> is the loop, which runs outside the \<^verbatim>\<open>try\<close>.
\<close>

fun scan_pods :: "kubeutil \<Rightarrow> pyval list \<Rightarrow> error option \<times> kubeutil" where
  "scan_pods self [] = (None, self)"
| "scan_pods self (pod # rest) =
     (case and_then (py_get pod ''metadata'' (PDict [])) (\<lambda>metadata.
             py_get metadata ''name'' PNone) of
        Inl ex \<Rightarrow> (Some ex, self)
      | Inr name \<Rightarrow>
          if name = host_name self then
            (case and_then (py_get pod ''status'' (PDict [])) (\<lambda>status.
                  and_then (py_get pod ''spec'' (PDict [])) (\<lambda>spec.
                  and_then (py_get status ''hostIP'' (PStr [])) (\<lambda>ip. Inr (spec, ip)))) of
               Inl ex \<Rightarrow> (Some ex, self)
             | Inr (spec, ip) \<Rightarrow>
                 (case py_get spec ''nodeName'' (PStr []) of
                    Inl ex \<Rightarrow> (Some ex, self\<lparr>node_ip := ip\<rparr>)
                  | Inr nm \<Rightarrow> (None, self\<lparr>node_ip := ip, node_name := nm\<rparr>)))
          else scan_pods self rest)"

definition fetch_host_data ::
  "world \<Rightarrow> kubeutil \<Rightarrow> (error option \<times> kubeutil) \<times> request list" where
  "fetch_host_data w self =
     (let (r, tr) = retrieve_pods_list w self
      in case and_then r (\<lambda>pods. py_get pods ''items'' PNone) of
           Inl e \<Rightarrow> ((None, self), tr)
         | Inr items \<Rightarrow>
             (case py_iter (py_or items (PList [])) of
                Inl ex \<Rightarrow> ((Some ex, self), tr)
              | Inr pod_items \<Rightarrow> (scan_pods self pod_items, tr)))"

text \<open>\<^verbatim>\<open>get_node_info\<close>: the pair returned (or the exception), the new state, the requests.\<close>

definition get_node_info ::
  "world \<Rightarrow> kubeutil \<Rightarrow> ((error + pyval \<times> pyval) \<times> kubeutil) \<times> request list" where
  "get_node_info w self =
     (if node_ip self = PNone \<or> node_name self = PNone then
        (case fetch_host_data w self of
           ((Some ex, self'), tr) \<Rightarrow> ((Inl ex, self'), tr)
         | ((None, self'), tr) \<Rightarrow> ((Inr (node_ip self', node_name self'), self'), tr))
      else ((Inr (node_ip self, node_name self), self), []))"

subsection \<open>Event tags\<close>

text \<open>\<^verbatim>\<open>x.lower()\<close> on any value: only a string has the method.\<close>

fun py_lower :: "pyval \<Rightarrow> error + string" where
  "py_lower (PStr s) = Inr (lower s)"
| "py_lower _ = Inl AttributeError"

text \<open>
  \<^verbatim>\<open>extract_event_tags\<close>. Each of its four \<^verbatim>\<open>if\<close> statements is one step from the list
  \<open>tags\<close> to the list after the statement.
\<close>

definition add_reason_tag :: "pyval \<Rightarrow> string list \<Rightarrow> error + string list" where
  "add_reason_tag event tags =
     and_then (py_contains ''reason'' event) (\<lambda>has_reason.
       if has_reason
       then and_then (py_get event ''reason'' (PStr [])) (\<lambda>r.
            and_then (py_lower r) (\<lambda>l. Inr (tags @ [''reason:'' @ l])))
       else Inr tags)"

definition add_namespace_tag :: "world \<Rightarrow> pyval \<Rightarrow> string list \<Rightarrow> error + string list" where
  "add_namespace_tag w event tags =
     and_then (py_get event ''metadata'' (PDict [])) (\<lambda>metadata.
     and_then (py_contains ''namespace'' metadata) (\<lambda>has_namespace.
       if has_namespace
       then and_then (py_getitem event ''metadata'') (\<lambda>m.
            and_then (py_getitem m ''namespace'') (\<lambda>ns.
              Inr (tags @ [''namespace:'' @ py_str w ns])))
       else Inr tags))"

definition add_node_name_tag :: "world \<Rightarrow> pyval \<Rightarrow> string list \<Rightarrow> error + string list" where
  "add_node_name_tag w event tags =
     and_then (py_get event ''source'' (PDict [])) (\<lambda>source.
     and_then (py_contains ''host'' source) (\<lambda>has_host.
       if has_host
       then and_then (py_getitem event ''source'') (\<lambda>s.
            and_then (py_getitem s ''host'') (\<lambda>h.
              Inr (tags @ [''node_name:'' @ py_str w h])))
       else Inr tags))"

definition add_object_type_tag :: "pyval \<Rightarrow> string list \<Rightarrow> error + string list" where
  "add_object_type_tag event tags =
     and_then (py_get event ''involvedObject'' (PDict [])) (\<lambda>involved.
     and_then (py_contains ''kind'' involved) (\<lambda>has_kind.
       if has_kind
       then and_then (py_getitem event ''involvedObject'') (\<lambda>obj.
            and_then (py_get obj ''kind'' (PStr [])) (\<lambda>k.
            and_then (py_lower k) (\<lambda>l. Inr (tags @ [''object_type:'' @ l]))))
       else Inr tags))"

definition extract_event_tags :: "world \<Rightarrow> pyval \<Rightarrow> error + string list" where
  "extract_event_tags w event =
     and_then (add_reason_tag event []) (\<lambda>tags.
     and_then (add_namespace_tag w event tags) (\<lambda>tags.
     and_then (add_node_name_tag w event tags) (\<lambda>tags.
     add_object_type_tag event tags)))"


section \<open>Notions used in the statements\<close>

text \<open>
  Names for the two health requests that \<open>locate_kubelet\<close> builds: the one to the
  unauthenticated HTTP port and the one to the HTTPS port.
\<close>

definition http_probe :: "world \<Rightarrow> kubeutil \<Rightarrow> (string \<times> pyval) list \<Rightarrow> request" where
  "http_probe w self instance =
     kubelet_request w self
       (urljoin w (no_auth_url w (fst (locate_host w self instance)) instance)
          KUBELET_HEALTH_PATH) True 10"

definition https_probe :: "world \<Rightarrow> kubeutil \<Rightarrow> (string \<times> pyval) list \<Rightarrow> request" where
  "https_probe w self instance =
     kubelet_request w self
       (urljoin w (https_url w (fst (locate_host w self instance)) instance)
          KUBELET_HEALTH_PATH) True 10"

text \<open>The request of the node lookup at the apiserver.\<close>

definition node_lookup :: "world \<Rightarrow> kubeutil \<Rightarrow> request" where
  "node_lookup w self =
     json_auth_request w
       (kubernetes_api_url self @ ''/nodes?'' @
        urlencode w [(''labelSelector'', ''kubernetes.io/hostname='' @ docker_get_hostname w)])
       (get_auth_token w) 10 PNone"

text \<open>The name of a pod item, read the way the scan of the pod list reads it.\<close>

definition pod_name :: "pyval \<Rightarrow> error + pyval" where
  "pod_name pod =
     and_then (py_get pod ''metadata'' (PDict [])) (\<lambda>metadata. py_get metadata ''name'' PNone)"

section \<open>The specification's reading of the extractors\<close>

text \<open>
  The specification describes the event tags field by field. The four definitions below
  follow its words: a tag for an optional field, none when the field is absent.
\<close>

definition reason_tag :: "(string \<times> pyval) list \<Rightarrow> string list" where
  "reason_tag ev =
     (case map_of ev ''reason'' of Some (PStr r) \<Rightarrow> [''reason:'' @ lower r] | _ \<Rightarrow> [])"

definition namespace_tag :: "world \<Rightarrow> (string \<times> pyval) list \<Rightarrow> string list" where
  "namespace_tag w ev =
     (case map_of ev ''metadata'' of
        Some (PDict m) \<Rightarrow>
          (case map_of m ''namespace'' of
             Some ns \<Rightarrow> [''namespace:'' @ py_str w ns]
           | None \<Rightarrow> [])
      | _ \<Rightarrow> [])"

definition node_name_tag :: "world \<Rightarrow> (string \<times> pyval) list \<Rightarrow> string list" where
  "node_name_tag w ev =
     (case map_of ev ''source'' of
        Some (PDict s) \<Rightarrow>
          (case map_of s ''host'' of Some h \<Rightarrow> [''node_name:'' @ py_str w h] | None \<Rightarrow> [])
      | _ \<Rightarrow> [])"

definition object_type_tag :: "(string \<times> pyval) list \<Rightarrow> string list" where
  "object_type_tag ev =
     (case map_of ev ''involvedObject'' of
        Some (PDict obj) \<Rightarrow>
          (case map_of obj ''kind'' of
             Some (PStr k) \<Rightarrow> [''object_type:'' @ lower k]
           | _ \<Rightarrow> [])
      | _ \<Rightarrow> [])"

text \<open>
  An event as the apiserver sends it: \<^verbatim>\<open>reason\<close> and \<^verbatim>\<open>involvedObject.kind\<close> are strings
  when present, \<^verbatim>\<open>metadata\<close>, \<^verbatim>\<open>source\<close> and \<^verbatim>\<open>involvedObject\<close> are objects when present.
\<close>

fun str_or_absent :: "pyval option \<Rightarrow> bool" where
  "str_or_absent None = True"
| "str_or_absent (Some (PStr s)) = True"
| "str_or_absent (Some _) = False"

fun dict_or_absent :: "pyval option \<Rightarrow> bool" where
  "dict_or_absent None = True"
| "dict_or_absent (Some (PDict d)) = True"
| "dict_or_absent (Some _) = False"

definition event_ok :: "(string \<times> pyval) list \<Rightarrow> bool" where
  "event_ok ev \<longleftrightarrow>
     str_or_absent (map_of ev ''reason'') \<and>
     dict_or_absent (map_of ev ''metadata'') \<and>
     dict_or_absent (map_of ev ''source'') \<and>
     (case map_of ev ''involvedObject'' of
        None \<Rightarrow> True
      | Some (PDict obj) \<Rightarrow> str_or_absent (map_of obj ''kind'')
      | Some _ \<Rightarrow> False)"

text \<open>
  Following the specification: a pod item that has a name, a namespace and a non-empty
  label map gives the key \<^verbatim>\<open><namespace>/<name>\<close> and one tag per label whose key is not
  excluded, in the iteration order of the labels; any other pod item gives nothing.
  \<open>tags_for\<close> collects the tags of a key over a pod list, \<open>pod_step\<close> is what one pod
  item does to the label index.
\<close>

definition label_tags :: "world \<Rightarrow> string list \<Rightarrow> (string \<times> pyval) list \<Rightarrow> string list" where
  "label_tags w excluded ls =
     map (\<lambda>kv. ''kube_'' @ fst kv @ '':'' @ py_str w (snd kv))
       (filter (\<lambda>kv. fst kv \<notin> set excluded) ls)"

definition pod_entry :: "world \<Rightarrow> string list \<Rightarrow> pyval \<Rightarrow> (string \<times> string list) option" where
  "pod_entry w excluded pod =
     (case pod of
        PDict p \<Rightarrow>
          (case dict_get p ''metadata'' (PDict []) of
             PDict m \<Rightarrow>
               (case map_of m ''labels'' of
                  Some (PDict ls) \<Rightarrow>
                    if py_truthy (dict_get m ''name'' PNone) \<and>
                       py_truthy (dict_get m ''namespace'' PNone) \<and> ls \<noteq> []
                    then Some (py_str w (dict_get m ''namespace'' PNone) @ ''/'' @
                               py_str w (dict_get m ''name'' PNone),
                               label_tags w excluded ls)
                    else None
                | _ \<Rightarrow> None)
           | _ \<Rightarrow> None)
      | _ \<Rightarrow> None)"

definition tags_for :: "world \<Rightarrow> string list \<Rightarrow> pyval list \<Rightarrow> string \<Rightarrow> string list" where
  "tags_for w excluded pods key =
     concat (map (\<lambda>pod. case pod_entry w excluded pod of
                          Some (k, tags) \<Rightarrow> if k = key then tags else []
                        | None \<Rightarrow> []) pods)"

definition pod_step ::
  "world \<Rightarrow> string list \<Rightarrow> (string \<Rightarrow> string list option) \<Rightarrow> pyval \<Rightarrow>
   (string \<Rightarrow> string list option)" where
  "pod_step w excluded kl pod =
     (case pod_entry w excluded pod of
        None \<Rightarrow> kl
      | Some (key, tags) \<Rightarrow> if tags = [] then kl else kl(key \<mapsto> dd_get kl key @ tags))"

text \<open>
  A pod item as the kubelet sends it: an object whose \<^verbatim>\<open>metadata\<close>, when present, is an
  object, and whose \<^verbatim>\<open>labels\<close>, when present and not empty, are an object.
\<close>

definition pod_ok :: "pyval \<Rightarrow> bool" where
  "pod_ok pod =
     (case pod of
        PDict p \<Rightarrow>
          (case dict_get p ''metadata'' (PDict []) of
             PDict m \<Rightarrow>
               (case dict_get m ''labels'' PNone of
                  PDict ls \<Rightarrow> True
                | v \<Rightarrow> \<not> py_truthy v)
           | _ \<Rightarrow> False)
      | _ \<Rightarrow> False)"

section \<open>Example environments\<close>

text \<open>A node where nothing answers and no file exists.\<close>

definition world0 :: world where
  "world0 =
     \<lparr>environ = (\<lambda>name. None), path_exists = (\<lambda>p. False), read_file = (\<lambda>p. None),
      docker_get_hostname = ''node1'', http_get = (\<lambda>rq. Inl ConnectionError),
      urljoin = (\<lambda>base path. base @ path),
      urlencode = (\<lambda>kvs. concat (map (\<lambda>kv. fst kv @ ''='' @ snd kv) kvs)),
      str_container = (\<lambda>v. ''[]''), check_config = Inl IOError\<rparr>"

text \<open>The same node with a service account token, with a client certificate on disk, and
  with the kubelet host given in the environment.\<close>

definition world_token :: world where
  "world_token =
     world0\<lparr>read_file := (\<lambda>p. if p = AUTH_TOKEN_PATH then Some ''abc123'' else None)\<rparr>"

definition world_certs :: world where
  "world_certs =
     world0\<lparr>path_exists := (\<lambda>p. p = ''/etc/kubelet/client.crt'' \<or> p = ''/etc/kubelet/client.key'')\<rparr>"

definition world_kubelet_host :: world where
  "world_kubelet_host =
     world0\<lparr>environ :=
       (\<lambda>name. if name = ''KUBERNETES_KUBELET_HOST'' then Some ''10.0.0.1'' else None)\<rparr>"

text \<open>Responses, and a network that gives every request the same outcome.\<close>

definition ok_response :: response where
  "ok_response = \<lparr>status_code = 200, json_body = None\<rparr>"

definition server_error :: response where
  "server_error = \<lparr>status_code = 500, json_body = None\<rparr>"

definition multiple_choices :: response where
  "multiple_choices = \<lparr>status_code = 300, json_body = Some (PDict [])\<rparr>"

definition world_answering :: "error + response \<Rightarrow> world" where
  "world_answering outcome = world0\<lparr>http_get := (\<lambda>rq. outcome)\<rparr>"

text \<open>A kubelet that serves HTTPS only: every plain HTTP request is refused.\<close>

definition world_https_only :: world where
  "world_https_only =
     world0\<lparr>http_get :=
       (\<lambda>rq. if startswith (req_url rq) ''https://''
              then Inr ok_response
              else Inl ConnectionError)\<rparr>"

text \<open>An apiserver that knows the node of the runtime hostname \<^verbatim>\<open>node1\<close> as \<^verbatim>\<open>node-a\<close>.\<close>

definition node_list :: pyval where
  "node_list =
     PDict [(''items'', PList [PDict [(''status'', PDict [(''addresses'',
       PList [PDict [(''type'', PStr ''InternalIP''), (''address'', PStr ''10.0.0.5'')],
              PDict [(''type'', PStr ''Hostname''), (''address'', PStr ''node-a'')]])])]])]"

definition world_apiserver :: world where
  "world_apiserver =
     world0\<lparr>http_get :=
       (\<lambda>rq. if req_url rq =
                 ''https://kubernetes/api/v1/nodes?labelSelector=kubernetes.io/hostname=node1''
              then Inr \<lparr>status_code = 200, json_body = Some node_list\<rparr>
              else Inl ConnectionError)\<rparr>"

text \<open>A kubelet that serves the given pod list, and an instance running in the pod
  \<^verbatim>\<open>dd-agent-x7\<close>.\<close>

definition world_pods :: "pyval list \<Rightarrow> world" where
  "world_pods pods =
     world0\<lparr>http_get :=
       (\<lambda>rq. Inr \<lparr>status_code = 200, json_body = Some (PDict [(''items'', PList pods)])\<rparr>)\<rparr>"

definition agent_pod :: "(string \<times> pyval) list" where
  "agent_pod =
     [(''metadata'', PDict [(''name'', PStr ''dd-agent-x7'')]),
      (''status'', PDict [(''hostIP'', PStr ''10.0.0.5'')]),
      (''spec'', PDict [(''nodeName'', PStr ''node-a'')])]"

definition other_pod :: pyval where
  "other_pod = PDict [(''metadata'', PDict [(''name'', PStr ''redis-0'')])]"

definition bare_pod :: "(string \<times> pyval) list" where
  "bare_pod = [(''metadata'', PDict [(''name'', PStr ''dd-agent-x7'')])]"

definition labelled_pod :: pyval where
  "labelled_pod =
     PDict [(''metadata'',
       PDict [(''name'', PStr ''p1''), (''namespace'', PStr ''ns''),
              (''labels'', PDict [(''a'', PStr ''1''), (''b'', PStr ''2'')])])]"

definition nameless_pod :: pyval where
  "nameless_pod =
     PDict [(''metadata'',
       PDict [(''namespace'', PStr ''ns''), (''labels'', PDict [(''a'', PStr ''1'')])])]"

text \<open>Configurations, TLS settings, instances and an event.\<close>

definition certs_instance :: "(string \<times> pyval) list" where
  "certs_instance =
     [(''kubelet_client_crt'', PStr ''/etc/kubelet/client.crt''),
      (''kubelet_client_key'', PStr ''/etc/kubelet/client.key'')]"

definition host_instance :: "(string \<times> pyval) list" where
  "host_instance = [(''host'', PStr ''10.0.0.7'')]"

definition port_instance :: "(string \<times> pyval) list" where
  "port_instance = [(''host'', PStr ''10.0.0.7''), (''kubelet_port'', PInt 10443)]"

definition plain_tls :: tls_context where
  "plain_tls = \<lparr>kubelet_client_cert = None, verify = PBool True\<rparr>"

definition cert_tls :: tls_context where
  "cert_tls =
     \<lparr>kubelet_client_cert =
        Some (PStr ''/etc/kubelet/client.crt'', PStr ''/etc/kubelet/client.key''),
      verify = PBool True\<rparr>"

definition no_verify_tls :: tls_context where
  "no_verify_tls = \<lparr>kubelet_client_cert = None, verify = PBool False\<rparr>"

definition agent_self :: kubeutil where
  "agent_self =
     (new_self world0 [] plain_tls)
       \<lparr>host_name := PStr ''dd-agent-x7'',
        kubelet_api_url := Some ''http://node1:10255'',
        kubelet_host := Some ''node1'',
        pods_list_url := Some ''http://node1:10255/pods/'',
        kube_health_url := Some ''http://node1:10255/healthz''\<rparr>"

definition killing_event :: "(string \<times> pyval) list" where
  "killing_event =
     [(''reason'', PStr ''Killing''),
      (''metadata'', PDict [(''namespace'', PStr ''ns'')]),
      (''source'', PDict [(''host'', PStr ''node1'')]),
      (''involvedObject'', PDict [(''kind'', PStr ''Pod'')])]"

section \<open>Auxiliary facts\<close>

lemma and_then_Inr: "and_then r f = Inr y \<longleftrightarrow> (\<exists>x. r = Inr x \<and> f x = Inr y)"
  by (cases r) (simp_all add: and_then_def)

lemma and_then_Inl: "and_then r f = Inl e \<longleftrightarrow> r = Inl e \<or> (\<exists>x. r = Inr x \<and> f x = Inl e)"
  by (cases r) (simp_all add: and_then_def)

lemma os_path_exists_Inr:
  "os_path_exists w v = Inr b \<longleftrightarrow> (\<exists>p. v = PStr p \<and> b = path_exists w p)"
  by (cases v) auto

lemma py_lower_Inr: "py_lower v = Inr l \<longleftrightarrow> (\<exists>s. v = PStr s \<and> l = lower s)"
  by (cases v) auto

lemma py_getitem_Inr: "py_getitem v k = Inr x \<longleftrightarrow> (\<exists>d. v = PDict d \<and> map_of d k = Some x)"
  by (cases v) (auto split: option.splits)

lemma py_contains_dict: "py_contains k (PDict d) = Inr (map_of d k \<noteq> None)"
  by (simp add: map_of_eq_None_iff)

lemma startswith_https: "startswith (lower (''https://'' @ rest)) ''https''"
  by (simp add: startswith_def lower_def lower_char_def latin1_upper_def latin1_lower_def)

lemma startswith_http: "\<not> startswith (lower (''http://'' @ rest)) ''https''"
  by (simp add: startswith_def lower_def lower_char_def latin1_upper_def latin1_lower_def)

section \<open>TLS settings\<close>

text \<open>
  Claim C6. The TLS settings resolver records a client certificate exactly when the
  configuration holds both a certificate path and a key path (non-empty strings) and both
  files exist on disk; the credential is then the pair of the two paths. Verification is
  the CA certificate path when one is configured, otherwise the configured verify flag,
  and true when the flag is absent. A configuration that lacks the certificate or the key
  is resolved without error and has no client certificate.
\<close>

theorem init_tls_settings_claim:
  "(init_tls_settings w instance = Inr tls \<longrightarrow>
      kubelet_client_cert tls =
        (if \<exists>c k. map_of instance ''kubelet_client_crt'' = Some (PStr c) \<and>
                  map_of instance ''kubelet_client_key'' = Some (PStr k) \<and>
                  c \<noteq> [] \<and> k \<noteq> [] \<and> path_exists w c \<and> path_exists w k
         then Some (dict_get instance ''kubelet_client_crt'' PNone,
                    dict_get instance ''kubelet_client_key'' PNone)
         else None) \<and>
      verify tls =
        (if py_truthy (dict_get instance ''kubelet_cert'' PNone)
         then dict_get instance ''kubelet_cert'' PNone
         else (case map_of instance ''kubelet_tls_verify'' of
                 None \<Rightarrow> PBool True
               | Some b \<Rightarrow> b))) \<and>
   (map_of instance ''kubelet_client_crt'' = None \<or>
    map_of instance ''kubelet_client_key'' = None \<longrightarrow>
      (\<exists>t. init_tls_settings w instance = Inr t \<and> kubelet_client_cert t = None))"
proof (intro conjI impI)
  assume ok: "init_tls_settings w instance = Inr tls"
  show "kubelet_client_cert tls =
        (if \<exists>c k. map_of instance ''kubelet_client_crt'' = Some (PStr c) \<and>
                  map_of instance ''kubelet_client_key'' = Some (PStr k) \<and>
                  c \<noteq> [] \<and> k \<noteq> [] \<and> path_exists w c \<and> path_exists w k
         then Some (dict_get instance ''kubelet_client_crt'' PNone,
                    dict_get instance ''kubelet_client_key'' PNone)
         else None)"
    using ok
    by (auto simp: init_tls_settings_def Let_def dict_get_def and_then_Inr os_path_exists_Inr
             split: if_splits option.splits)
  show "verify tls =
        (if py_truthy (dict_get instance ''kubelet_cert'' PNone)
         then dict_get instance ''kubelet_cert'' PNone
         else (case map_of instance ''kubelet_tls_verify'' of
                 None \<Rightarrow> PBool True
               | Some b \<Rightarrow> b))"
    using ok
    by (auto simp: init_tls_settings_def Let_def dict_get_def and_then_Inr os_path_exists_Inr
             DEFAULT_TLS_VERIFY_def
             split: if_splits option.splits)
next
  assume "map_of instance ''kubelet_client_crt'' = None \<or>
          map_of instance ''kubelet_client_key'' = None"
  then show "\<exists>t. init_tls_settings w instance = Inr t \<and> kubelet_client_cert t = None"
    by (auto simp: init_tls_settings_def Let_def dict_get_def)
qed

theorem init_tls_settings_claim_witness:
  "init_tls_settings world_certs certs_instance = Inr cert_tls \<and>
   kubelet_client_cert cert_tls =
     Some (PStr ''/etc/kubelet/client.crt'', PStr ''/etc/kubelet/client.key'') \<and>
   verify cert_tls = PBool True \<and>
   map_of [] ''kubelet_client_crt'' = (None :: pyval option) \<and>
   (\<exists>t. init_tls_settings world0 [] = Inr t \<and> kubelet_client_cert t = None)"
  using init_tls_settings_claim [of world_certs certs_instance cert_tls]
    init_tls_settings_claim [of world0 "[]" plain_tls]
  by (simp add: init_tls_settings_def world_certs_def world0_def certs_instance_def
      cert_tls_def plain_tls_def dict_get_def and_then_def DEFAULT_TLS_VERIFY_def)

section \<open>Requests\<close>

text \<open>
  Claim C3. Every call of \<^verbatim>\<open>perform_kubelet_query\<close> issues exactly one request, to the
  given URL, with the resolved certificate and verify settings. With a client certificate
  configured the request carries the certificate and no headers. Without one, a URL of
  scheme https carries the header Authorization: Bearer <token>, where the token is the
  content of the token file in the environment of that very call (the instance stores no
  token; an unreadable file gives the text None); a URL of scheme http carries no headers.
\<close>

theorem perform_kubelet_query_auth:
  "perform_kubelet_query w self url verbose timeout =
     (http_get w (kubelet_request w self url verbose timeout),
      [kubelet_request w self url verbose timeout]) \<and>
   req_url (kubelet_request w self url verbose timeout) = url \<and>
   req_cert (kubelet_request w self url verbose timeout) =
     kubelet_client_cert (tls_settings self) \<and>
   req_verify (kubelet_request w self url verbose timeout) = verify (tls_settings self) \<and>
   (kubelet_client_cert (tls_settings self) \<noteq> None \<longrightarrow>
      req_headers (kubelet_request w self url verbose timeout) = None) \<and>
   (kubelet_client_cert (tls_settings self) = None \<and> url = ''https://'' @ rest \<longrightarrow>
      req_headers (kubelet_request w self url verbose timeout) =
        Some [(''Authorization'',
               ''Bearer '' @ (case read_file w AUTH_TOKEN_PATH of
                                Some token \<Rightarrow> token
                              | None \<Rightarrow> ''None''))]) \<and>
   (kubelet_client_cert (tls_settings self) = None \<and> url = ''http://'' @ rest \<longrightarrow>
      req_headers (kubelet_request w self url verbose timeout) = None)"
proof -
  have bearer: "kubelet_client_cert (tls_settings self) = None \<and> url = ''https://'' @ rest \<longrightarrow>
      req_headers (kubelet_request w self url verbose timeout) =
        Some [(''Authorization'',
               ''Bearer '' @ (case read_file w AUTH_TOKEN_PATH of
                                Some token \<Rightarrow> token
                              | None \<Rightarrow> ''None''))]"
    using startswith_https [of rest]
    by (auto simp: kubelet_request_def Let_def get_auth_token_def split: option.splits)
  have anonymous: "kubelet_client_cert (tls_settings self) = None \<and> url = ''http://'' @ rest \<longrightarrow>
      req_headers (kubelet_request w self url verbose timeout) = None"
    using startswith_http [of rest]
    by (auto simp: kubelet_request_def Let_def)
  have by_cert: "kubelet_client_cert (tls_settings self) \<noteq> None \<longrightarrow>
      req_headers (kubelet_request w self url verbose timeout) = None"
    by (simp add: kubelet_request_def Let_def)
  have one_request: "perform_kubelet_query w self url verbose timeout =
     (http_get w (kubelet_request w self url verbose timeout),
      [kubelet_request w self url verbose timeout])"
    by (simp add: perform_kubelet_query_def Let_def)
  have settings: "req_url (kubelet_request w self url verbose timeout) = url \<and>
      req_cert (kubelet_request w self url verbose timeout) =
        kubelet_client_cert (tls_settings self) \<and>
      req_verify (kubelet_request w self url verbose timeout) = verify (tls_settings self)"
    by (simp add: kubelet_request_def Let_def)
  from bearer anonymous by_cert one_request settings show ?thesis by blast
qed

theorem perform_kubelet_query_auth_witness:
  "kubelet_client_cert (tls_settings (new_self world0 [] cert_tls)) \<noteq> None \<and>
   req_headers (kubelet_request world_token (new_self world0 [] cert_tls)
                  ''https://node1:10250/pods/'' True 10) = None \<and>
   kubelet_client_cert (tls_settings (new_self world0 [] plain_tls)) = None \<and>
   req_headers (kubelet_request world_token (new_self world0 [] plain_tls)
                  ''https://node1:10250/pods/'' True 10) =
     Some [(''Authorization'', ''Bearer abc123'')] \<and>
   req_headers (kubelet_request world_token (new_self world0 [] plain_tls)
                  ''http://node1:10255/pods/'' True 10) = None"
  using
    perform_kubelet_query_auth [of world_token "new_self world0 [] cert_tls"
      "''https://node1:10250/pods/''" True 10 "''node1:10250/pods/''"]
    perform_kubelet_query_auth [of world_token "new_self world0 [] plain_tls"
      "''https://node1:10250/pods/''" True 10 "''node1:10250/pods/''"]
    perform_kubelet_query_auth [of world_token "new_self world0 [] plain_tls"
      "''http://node1:10255/pods/''" True 10 "''node1:10255/pods/''"]
  by (simp add: new_self_def cert_tls_def plain_tls_def world_token_def world0_def
      AUTH_TOKEN_PATH_def)

text \<open>
  Claim C4, as amended. \<^verbatim>\<open>retrieve_json_auth\<close> issues one request that always carries the
  given bearer token. Without an explicit verify argument it verifies against the CA
  certificate path if that file exists and disables verification otherwise; an explicit
  argument is passed on. An exception of the request propagates. A response with a status
  from 400 to 599 raises an HTTP error; any other status (200 among them) does not, and
  the parsed JSON body is returned.
\<close>

theorem retrieve_json_auth_claim:
  "snd (retrieve_json_auth w url auth_token timeout vfy) =
     [json_auth_request w url auth_token timeout vfy] \<and>
   req_headers (json_auth_request w url auth_token timeout vfy) =
     Some [(''Authorization'', ''Bearer '' @ py_str w auth_token)] \<and>
   req_verify (json_auth_request w url auth_token timeout PNone) =
     (if path_exists w CA_CRT_PATH then PStr CA_CRT_PATH else PBool False) \<and>
   (vfy \<noteq> PNone \<longrightarrow> req_verify (json_auth_request w url auth_token timeout vfy) = vfy) \<and>
   (http_get w (json_auth_request w url auth_token timeout vfy) = Inl ex \<longrightarrow>
      fst (retrieve_json_auth w url auth_token timeout vfy) = Inl ex) \<and>
   (http_get w (json_auth_request w url auth_token timeout vfy) = Inr r \<and>
    400 \<le> status_code r \<and> status_code r < 600 \<longrightarrow>
      fst (retrieve_json_auth w url auth_token timeout vfy) = Inl (HTTPError (status_code r))) \<and>
   (http_get w (json_auth_request w url auth_token timeout vfy) = Inr r \<and>
    \<not> (400 \<le> status_code r \<and> status_code r < 600) \<and> json_body r = Some body \<longrightarrow>
      fst (retrieve_json_auth w url auth_token timeout vfy) = Inr body)"
  by (simp add: retrieve_json_auth_def json_auth_request_def Let_def and_then_def
      raise_for_status_def json_def)

theorem retrieve_json_auth_claim_witness:
  "req_verify (json_auth_request world0 ''https://kubernetes/api/v1/nodes'' (PStr ''abc123'')
                 10 (PBool True)) = PBool True \<and>
   fst (retrieve_json_auth world0 ''https://kubernetes/api/v1/nodes'' (PStr ''abc123'')
          10 (PBool True)) = Inl ConnectionError \<and>
   fst (retrieve_json_auth (world_answering (Inr \<lparr>status_code = 500, json_body = None\<rparr>))
          ''https://kubernetes/api/v1/nodes'' (PStr ''abc123'') 10 PNone) =
     Inl (HTTPError 500) \<and>
   fst (retrieve_json_auth
          (world_answering (Inr \<lparr>status_code = 200, json_body = Some (PDict [])\<rparr>))
          ''https://kubernetes/api/v1/nodes'' (PStr ''abc123'') 10 PNone) = Inr (PDict [])"
  using
    retrieve_json_auth_claim [of world0 "''https://kubernetes/api/v1/nodes''" "PStr ''abc123''"
      10 "PBool True" ConnectionError "\<lparr>status_code = 500, json_body = None\<rparr>" "PDict []"]
    retrieve_json_auth_claim [of
      "world_answering (Inr \<lparr>status_code = 500, json_body = None\<rparr>)"
      "''https://kubernetes/api/v1/nodes''" "PStr ''abc123''"
      10 PNone ConnectionError "\<lparr>status_code = 500, json_body = None\<rparr>" "PDict []"]
    retrieve_json_auth_claim [of
      "world_answering (Inr \<lparr>status_code = 200, json_body = Some (PDict [])\<rparr>)"
      "''https://kubernetes/api/v1/nodes''" "PStr ''abc123''"
      10 PNone ConnectionError "\<lparr>status_code = 200, json_body = Some (PDict [])\<rparr>" "PDict []"]
  by (simp add: world_answering_def world0_def)

text \<open>
  The claim as stated fails: a response with status 300, which is not a 2xx status, and a
  JSON body raises no error; the body is returned.
\<close>

theorem retrieve_json_auth_status_300:
  "http_get (world_answering (Inr multiple_choices))
     (json_auth_request (world_answering (Inr multiple_choices))
        ''https://kubernetes/api/v1/nodes'' (PStr ''abc123'') 10 PNone) =
     Inr multiple_choices \<and>
   status_code multiple_choices = 300 \<and>
   fst (retrieve_json_auth (world_answering (Inr multiple_choices))
          ''https://kubernetes/api/v1/nodes'' (PStr ''abc123'') 10 PNone) = Inr (PDict [])"
  by (simp add: retrieve_json_auth_def json_auth_request_def Let_def and_then_def
      raise_for_status_def json_def world_answering_def world0_def multiple_choices_def)

section \<open>Event tags\<close>

lemma add_reason_tag_Inr:
  "add_reason_tag (PDict ev) tags = Inr tags' \<Longrightarrow>
   tags' = tags @ reason_tag ev \<and> (reason_tag ev = [] \<longleftrightarrow> map_of ev ''reason'' = None)"
  by (auto simp: add_reason_tag_def and_then_Inr py_lower_Inr reason_tag_def dict_get_def
                 py_contains_dict simp del: py_contains.simps(1)
           split: if_splits option.splits)

lemma nested_tag_step:
  assumes "and_then (py_get (PDict ev) f (PDict [])) (\<lambda>x.
           and_then (py_contains k x) (\<lambda>b.
             if b then and_then (py_getitem (PDict ev) f) (\<lambda>m.
                       and_then (py_getitem m k) (\<lambda>v. Inr (tags @ [g v])))
             else Inr tags)) = Inr tags'"
  shows "tags' = tags @ (case map_of ev f of
                          Some (PDict d) \<Rightarrow> (case map_of d k of Some v \<Rightarrow> [g v] | None \<Rightarrow> [])
                        | _ \<Rightarrow> [])"
proof (cases "map_of ev f")
  case None
  with assms show ?thesis
    by (simp add: and_then_def dict_get_def)
next
  case (Some x)
  show ?thesis
  proof (cases x)
    case (PDict d)
    with Some assms show ?thesis
      by (auto simp: and_then_def dict_get_def py_contains_dict simp del: py_contains.simps(1)
               split: option.splits if_splits)
  qed (use Some assms in \<open>auto simp: and_then_def dict_get_def split: if_splits\<close>)
qed

lemma add_namespace_tag_Inr:
  "add_namespace_tag w (PDict ev) tags = Inr tags' \<Longrightarrow> tags' = tags @ namespace_tag w ev"
  unfolding add_namespace_tag_def namespace_tag_def by (rule nested_tag_step)

lemma add_node_name_tag_Inr:
  "add_node_name_tag w (PDict ev) tags = Inr tags' \<Longrightarrow> tags' = tags @ node_name_tag w ev"
  unfolding add_node_name_tag_def node_name_tag_def by (rule nested_tag_step)

lemma add_object_type_tag_Inr:
  assumes "add_object_type_tag (PDict ev) tags = Inr tags'"
  shows "tags' = tags @ object_type_tag ev \<and>
         (object_type_tag ev = [] \<longleftrightarrow>
            (\<forall>obj. map_of ev ''involvedObject'' = Some (PDict obj) \<longrightarrow>
                   map_of obj ''kind'' = None))"
proof (cases "map_of ev ''involvedObject''")
  case None
  with assms show ?thesis
    by (simp add: add_object_type_tag_def object_type_tag_def and_then_def dict_get_def)
next
  case (Some x)
  show ?thesis
  proof (cases x)
    case (PDict d)
    with Some assms show ?thesis
      by (auto simp: add_object_type_tag_def object_type_tag_def and_then_Inr py_lower_Inr
                     dict_get_def py_contains_dict simp del: py_contains.simps(1)
               split: option.splits if_splits)
  qed (use Some assms in \<open>auto simp: add_object_type_tag_def object_type_tag_def
          and_then_def dict_get_def split: if_splits\<close>)
qed

lemma add_reason_tag_ok:
  "str_or_absent (map_of ev ''reason'') \<Longrightarrow>
   add_reason_tag (PDict ev) tags = Inr (tags @ reason_tag ev)"
  by (cases "map_of ev ''reason''" rule: str_or_absent.cases)
     (auto simp: add_reason_tag_def reason_tag_def and_then_def dict_get_def py_contains_dict
           simp del: py_contains.simps(1))

lemma add_namespace_tag_ok:
  "dict_or_absent (map_of ev ''metadata'') \<Longrightarrow>
   add_namespace_tag w (PDict ev) tags = Inr (tags @ namespace_tag w ev)"
  by (cases "map_of ev ''metadata''" rule: dict_or_absent.cases)
     (auto simp: add_namespace_tag_def namespace_tag_def and_then_def dict_get_def
                 py_contains_dict
           simp del: py_contains.simps(1) split: option.splits)

lemma add_node_name_tag_ok:
  "dict_or_absent (map_of ev ''source'') \<Longrightarrow>
   add_node_name_tag w (PDict ev) tags = Inr (tags @ node_name_tag w ev)"
  by (cases "map_of ev ''source''" rule: dict_or_absent.cases)
     (auto simp: add_node_name_tag_def node_name_tag_def and_then_def dict_get_def
                 py_contains_dict
           simp del: py_contains.simps(1) split: option.splits)

lemma add_object_type_tag_ok:
  assumes "case map_of ev ''involvedObject'' of
             None \<Rightarrow> True
           | Some (PDict obj) \<Rightarrow> str_or_absent (map_of obj ''kind'')
           | Some _ \<Rightarrow> False"
  shows "add_object_type_tag (PDict ev) tags = Inr (tags @ object_type_tag ev)"
proof (cases "map_of ev ''involvedObject''")
  case None
  then show ?thesis
    by (simp add: add_object_type_tag_def object_type_tag_def and_then_def dict_get_def)
next
  case (Some x)
  with assms obtain obj where x: "x = PDict obj" and k: "str_or_absent (map_of obj ''kind'')"
    by (cases x) auto
  from k Some x show ?thesis
    by (cases "map_of obj ''kind''" rule: str_or_absent.cases)
       (auto simp: add_object_type_tag_def object_type_tag_def and_then_def dict_get_def
                   py_contains_dict
             simp del: py_contains.simps(1))
qed

text \<open>
  Claim C9. For every event object, whenever \<^verbatim>\<open>extract_event_tags\<close> returns, the result is
  the reason tag (lowercased), the namespace tag (from metadata), the node_name tag (from
  source.host) and the object_type tag (from involvedObject.kind, lowercased), in this
  order, each present exactly when its field is present: at most four tags. For an event
  whose fields have the types the apiserver gives them the function returns.
\<close>

theorem extract_event_tags_claim:
  "(extract_event_tags w (PDict ev) = Inr tags \<longrightarrow>
      tags = reason_tag ev @ namespace_tag w ev @ node_name_tag w ev @ object_type_tag ev \<and>
      length tags \<le> 4 \<and>
      (reason_tag ev = [] \<longleftrightarrow> map_of ev ''reason'' = None) \<and>
      (object_type_tag ev = [] \<longleftrightarrow>
         (\<forall>obj. map_of ev ''involvedObject'' = Some (PDict obj) \<longrightarrow>
                map_of obj ''kind'' = None))) \<and>
   (event_ok ev \<longrightarrow>
      extract_event_tags w (PDict ev) =
        Inr (reason_tag ev @ namespace_tag w ev @ node_name_tag w ev @ object_type_tag ev))"
proof (intro conjI impI)
  assume "extract_event_tags w (PDict ev) = Inr tags"
  then obtain t1 t2 t3 where steps:
    "add_reason_tag (PDict ev) [] = Inr t1"
    "add_namespace_tag w (PDict ev) t1 = Inr t2"
    "add_node_name_tag w (PDict ev) t2 = Inr t3"
    "add_object_type_tag (PDict ev) t3 = Inr tags"
    by (auto simp: extract_event_tags_def and_then_Inr)
  from steps(1) have t1: "t1 = reason_tag ev" 
    and "reason_tag ev = [] \<longleftrightarrow> map_of ev ''reason'' = None"
    using add_reason_tag_Inr [of ev "[]" t1] by simp_all
  then show "reason_tag ev = [] \<longleftrightarrow> map_of ev ''reason'' = None" by simp
  from steps(2) have t2: "t2 = t1 @ namespace_tag w ev"
    by (rule add_namespace_tag_Inr)
  from steps(3) have t3: "t3 = t2 @ node_name_tag w ev"
    by (rule add_node_name_tag_Inr)
  from steps(4) have t4: "tags = t3 @ object_type_tag ev"
    and kind: "object_type_tag ev = [] \<longleftrightarrow>
         (\<forall>obj. map_of ev ''involvedObject'' = Some (PDict obj) \<longrightarrow>
                map_of obj ''kind'' = None)"
    using add_object_type_tag_Inr [of ev t3 tags] by simp_all
  from kind show "object_type_tag ev = [] \<longleftrightarrow>
         (\<forall>obj. map_of ev ''involvedObject'' = Some (PDict obj) \<longrightarrow>
                map_of obj ''kind'' = None)" .
  from t1 t2 t3 t4
  show eq: "tags = reason_tag ev @ namespace_tag w ev @ node_name_tag w ev @ object_type_tag ev"
    by simp
  have "length (reason_tag ev) \<le> 1" "length (namespace_tag w ev) \<le> 1"
    "length (node_name_tag w ev) \<le> 1" "length (object_type_tag ev) \<le> 1"
    by (auto simp: reason_tag_def namespace_tag_def node_name_tag_def object_type_tag_def
        split: option.splits pyval.splits)
  with eq show "length tags \<le> 4" by simp
next
  assume "event_ok ev"
  then show "extract_event_tags w (PDict ev) =
        Inr (reason_tag ev @ namespace_tag w ev @ node_name_tag w ev @ object_type_tag ev)"
    by (simp add: extract_event_tags_def event_ok_def and_then_def add_reason_tag_ok
        add_namespace_tag_ok add_node_name_tag_ok add_object_type_tag_ok)
qed

theorem extract_event_tags_claim_witness:
  "event_ok killing_event \<and>
   extract_event_tags world0 (PDict killing_event) =
     Inr [''reason:killing'', ''namespace:ns'', ''node_name:node1'', ''object_type:pod''] \<and>
   length [''reason:killing'', ''namespace:ns'', ''node_name:node1'', ''object_type:pod'']
     \<le> (4::nat) \<and>
   map_of killing_event ''reason'' \<noteq> None"
  using
    extract_event_tags_claim [of world0 killing_event
      "[''reason:killing'', ''namespace:ns'', ''node_name:node1'', ''object_type:pod'']"]
  by (simp add: event_ok_def killing_event_def reason_tag_def namespace_tag_def
      node_name_tag_def object_type_tag_def lower_def lower_char_def latin1_upper_def
      latin1_lower_def)

section \<open>Locating the kubelet\<close>

lemma str_int_10255: "str_int 10255 = ''10255''"
  by (simp add: str_int_def str_nat.simps)

lemma str_int_10250: "str_int 10250 = ''10250''"
  by (simp add: str_int_def str_nat.simps)

lemma locate_kubelet_unfold:
  "locate_kubelet w self instance =
     (case http_get w (http_probe w self instance) of
        Inr r \<Rightarrow>
          (Inr (no_auth_url w (fst (locate_host w self instance)) instance),
           snd (locate_host w self instance) @ [http_probe w self instance])
      | Inl ex \<Rightarrow>
          (case http_get w (https_probe w self instance) of
             Inl ex' \<Rightarrow>
               (Inl ex', snd (locate_host w self instance) @
                         [http_probe w self instance, https_probe w self instance])
           | Inr r \<Rightarrow>
               (Inr (https_url w (fst (locate_host w self instance)) instance),
                snd (locate_host w self instance) @
                [http_probe w self instance, https_probe w self instance])))"
  by (simp add: locate_kubelet_def perform_kubelet_query_def http_probe_def https_probe_def
      Let_def split_beta split: sum.splits)

lemma get_node_hostname_trace:
  "snd (get_node_hostname w self (PStr (docker_get_hostname w))) = [node_lookup w self]"
  by (simp add: get_node_hostname_def retrieve_json_auth_def node_hostname_url_def
      node_lookup_def Let_def split_beta)

text \<open>
  Claim C10. Both probes read the one configuration key kubelet_port: when the
  configuration supplies it, the HTTP base URL and the HTTPS base URL carry the same port
  value; the defaults 10255 (HTTP) and 10250 (HTTPS) apply when the key is absent. The
  probes of the locator are the health path joined to these two base URLs.
\<close>

theorem kubelet_port_shared:
  "(map_of instance ''kubelet_port'' = Some port \<longrightarrow>
      no_auth_url w host instance = ''http://'' @ py_str w host @ '':'' @ py_str w port \<and>
      https_url w host instance = ''https://'' @ py_str w host @ '':'' @ py_str w port) \<and>
   (map_of instance ''kubelet_port'' = None \<longrightarrow>
      no_auth_url w host instance = ''http://'' @ py_str w host @ '':10255'' \<and>
      https_url w host instance = ''https://'' @ py_str w host @ '':10250'') \<and>
   req_url (http_probe w self instance) =
     urljoin w (no_auth_url w (fst (locate_host w self instance)) instance) ''/healthz'' \<and>
   req_url (https_probe w self instance) =
     urljoin w (https_url w (fst (locate_host w self instance)) instance) ''/healthz''"
  by (simp add: no_auth_url_def https_url_def dict_get_def http_probe_def https_probe_def
      kubelet_request_def Let_def KUBELET_HEALTH_PATH_def DEFAULT_HTTP_KUBELET_PORT_def
      DEFAULT_HTTPS_KUBELET_PORT_def str_int_10255 str_int_10250)

theorem kubelet_port_shared_witness:
  "map_of port_instance ''kubelet_port'' = Some (PInt 10443) \<and>
   no_auth_url world0 (PStr ''node1'') port_instance = ''http://node1:10443'' \<and>
   https_url world0 (PStr ''node1'') port_instance = ''https://node1:10443'' \<and>
   map_of host_instance ''kubelet_port'' = None \<and>
   no_auth_url world0 (PStr ''node1'') host_instance = ''http://node1:10255'' \<and>
   https_url world0 (PStr ''node1'') host_instance = ''https://node1:10250''"
  using
    kubelet_port_shared [of port_instance "PInt 10443" world0 "PStr ''node1''"
      "new_self world0 port_instance plain_tls"]
    kubelet_port_shared [of host_instance "PInt 10443" world0 "PStr ''node1''"
      "new_self world0 host_instance plain_tls"]
  by (simp add: port_instance_def host_instance_def str_int_def str_nat.simps)

text \<open>
  Claim C5. The host of the locator is the kubelet host override of the environment when
  it is set (and not empty); else the host entry of the configuration when it is present
  (and not empty); else the hostname of the container runtime, except that with TLS
  verification enabled the locator asks the apiserver for the node whose hostname label
  is the runtime hostname (one request) and takes the name that lookup returns, falling
  back to the runtime hostname when the lookup raises or returns nothing.
\<close>

theorem locate_host_order:
  "(environ w ''KUBERNETES_KUBELET_HOST'' = Some h \<and> h \<noteq> [] \<longrightarrow>
      locate_host w self instance = (PStr h, [])) \<and>
   ((environ w ''KUBERNETES_KUBELET_HOST'' = None \<or>
     environ w ''KUBERNETES_KUBELET_HOST'' = Some []) \<and>
    map_of instance ''host'' = Some v \<and> py_truthy v \<longrightarrow>
      locate_host w self instance = (v, [])) \<and>
   ((environ w ''KUBERNETES_KUBELET_HOST'' = None \<or>
     environ w ''KUBERNETES_KUBELET_HOST'' = Some []) \<and>
    \<not> py_truthy (dict_get instance ''host'' PNone) \<and>
    \<not> py_truthy (verify (tls_settings self)) \<longrightarrow>
      locate_host w self instance = (PStr (docker_get_hostname w), [])) \<and>
   ((environ w ''KUBERNETES_KUBELET_HOST'' = None \<or>
     environ w ''KUBERNETES_KUBELET_HOST'' = Some []) \<and>
    \<not> py_truthy (dict_get instance ''host'' PNone) \<and>
    py_truthy (verify (tls_settings self)) \<longrightarrow>
      snd (locate_host w self instance) = [node_lookup w self] \<and>
      fst (locate_host w self instance) =
        (case fst (get_node_hostname w self (PStr (docker_get_hostname w))) of
           Inr k8s_hostname \<Rightarrow>
             if py_truthy k8s_hostname then k8s_hostname else PStr (docker_get_hostname w)
         | Inl ex \<Rightarrow> PStr (docker_get_hostname w)))"
proof (intro conjI impI)
  assume "environ w ''KUBERNETES_KUBELET_HOST'' = Some h \<and> h \<noteq> []"
  then show "locate_host w self instance = (PStr h, [])"
    by (simp add: locate_host_def environ_get_def py_or_def)
next
  assume "(environ w ''KUBERNETES_KUBELET_HOST'' = None \<or>
     environ w ''KUBERNETES_KUBELET_HOST'' = Some []) \<and>
    map_of instance ''host'' = Some v \<and> py_truthy v"
  then show "locate_host w self instance = (v, [])"
    by (auto simp: locate_host_def environ_get_def py_or_def dict_get_def)
next
  assume "(environ w ''KUBERNETES_KUBELET_HOST'' = None \<or>
     environ w ''KUBERNETES_KUBELET_HOST'' = Some []) \<and>
    \<not> py_truthy (dict_get instance ''host'' PNone) \<and>
    \<not> py_truthy (verify (tls_settings self))"
  then show "locate_host w self instance = (PStr (docker_get_hostname w), [])"
    by (auto simp: locate_host_def environ_get_def py_or_def Let_def)
next
  assume a: "(environ w ''KUBERNETES_KUBELET_HOST'' = None \<or>
     environ w ''KUBERNETES_KUBELET_HOST'' = Some []) \<and>
    \<not> py_truthy (dict_get instance ''host'' PNone) \<and>
    py_truthy (verify (tls_settings self))"
  then have eq: "locate_host w self instance =
      (case get_node_hostname w self (PStr (docker_get_hostname w)) of
         (Inr k8s_hostname, tr) \<Rightarrow> (py_or k8s_hostname (PStr (docker_get_hostname w)), tr)
       | (Inl ex, tr) \<Rightarrow> (PStr (docker_get_hostname w), tr))"
    by (auto simp: locate_host_def environ_get_def py_or_def Let_def)
  from eq show "snd (locate_host w self instance) = [node_lookup w self]"
    using get_node_hostname_trace [of w self]
    by (simp split: prod.splits sum.splits)
  from eq show "fst (locate_host w self instance) =
        (case fst (get_node_hostname w self (PStr (docker_get_hostname w))) of
           Inr k8s_hostname \<Rightarrow>
             if py_truthy k8s_hostname then k8s_hostname else PStr (docker_get_hostname w)
         | Inl ex \<Rightarrow> PStr (docker_get_hostname w))"
    by (simp add: py_or_def split: prod.splits sum.splits)
qed

theorem locate_host_order_witness:
  "environ world_kubelet_host ''KUBERNETES_KUBELET_HOST'' = Some ''10.0.0.1'' \<and>
   locate_host world_kubelet_host (new_self world_kubelet_host host_instance plain_tls)
     host_instance = (PStr ''10.0.0.1'', []) \<and>
   locate_host world0 (new_self world0 host_instance plain_tls) host_instance =
     (PStr ''10.0.0.7'', []) \<and>
   locate_host world0 (new_self world0 [] no_verify_tls) [] = (PStr ''node1'', []) \<and>
   locate_host world_apiserver (new_self world_apiserver [] plain_tls) [] =
     (PStr ''node-a'', [node_lookup world_apiserver (new_self world_apiserver [] plain_tls)]) \<and>
   locate_host world0 (new_self world0 [] plain_tls) [] =
     (PStr ''node1'', [node_lookup world0 (new_self world0 [] plain_tls)])"
proof -
  have lookup_ok:
    "fst (get_node_hostname world_apiserver (new_self world_apiserver [] plain_tls)
            (PStr (docker_get_hostname world_apiserver))) = Inr (PStr ''node-a'')"
    by (simp add: get_node_hostname_def retrieve_json_auth_def json_auth_request_def
        node_hostname_url_def world_apiserver_def world0_def new_self_def plain_tls_def
        environ_get_def py_or_def DEFAULT_MASTER_NAME_def and_then_def raise_for_status_def
        json_def node_hostname_of_def node_list_def dict_get_def Let_def split_beta)
  have lookup_fails:
    "fst (get_node_hostname world0 (new_self world0 [] plain_tls)
            (PStr (docker_get_hostname world0))) = Inl ConnectionError"
    by (simp add: get_node_hostname_def retrieve_json_auth_def world0_def and_then_def
        Let_def split_beta)
  have env: "environ world_kubelet_host ''KUBERNETES_KUBELET_HOST'' = Some ''10.0.0.1''"
    "environ world0 ''KUBERNETES_KUBELET_HOST'' = None"
    "environ world_apiserver ''KUBERNETES_KUBELET_HOST'' = None"
    by (simp_all add: world_kubelet_host_def world_apiserver_def world0_def)
  have cfg: "map_of host_instance ''host'' = Some (PStr ''10.0.0.7'')"
    "\<not> py_truthy (dict_get [] ''host'' PNone)"
    by (simp_all add: host_instance_def dict_get_def)
  have vfy: "\<not> py_truthy (verify (tls_settings (new_self world0 [] no_verify_tls)))"
    "py_truthy (verify (tls_settings (new_self world0 [] plain_tls)))"
    "py_truthy (verify (tls_settings (new_self world_apiserver [] plain_tls)))"
    by (simp_all add: new_self_def no_verify_tls_def plain_tls_def)
  have names: "docker_get_hostname world0 = ''node1''"
    "docker_get_hostname world_apiserver = ''node1''"
    by (simp_all add: world_apiserver_def world0_def)
  have by_env:
    "locate_host world_kubelet_host (new_self world_kubelet_host host_instance plain_tls)
       host_instance = (PStr ''10.0.0.1'', [])"
    using env
      locate_host_order [of world_kubelet_host "''10.0.0.1''"
        "new_self world_kubelet_host host_instance plain_tls" host_instance "PStr ''10.0.0.7''"]
    by simp
  have by_config:
    "locate_host world0 (new_self world0 host_instance plain_tls) host_instance =
       (PStr ''10.0.0.7'', [])"
    using env cfg
      locate_host_order [of world0 "''10.0.0.1''"
        "new_self world0 host_instance plain_tls" host_instance "PStr ''10.0.0.7''"]
    by simp
  have by_runtime:
    "locate_host world0 (new_self world0 [] no_verify_tls) [] = (PStr ''node1'', [])"
    using env cfg vfy names
      locate_host_order [of world0 "''10.0.0.1''"
        "new_self world0 [] no_verify_tls" "[]" "PStr ''10.0.0.7''"]
    by simp
  have by_lookup:
    "locate_host world_apiserver (new_self world_apiserver [] plain_tls) [] =
       (PStr ''node-a'', [node_lookup world_apiserver (new_self world_apiserver [] plain_tls)])"
    using env cfg vfy names lookup_ok
      locate_host_order [of world_apiserver "''10.0.0.1''"
        "new_self world_apiserver [] plain_tls" "[]" "PStr ''10.0.0.7''"]
    by (simp add: prod_eq_iff)
  have by_fallback:
    "locate_host world0 (new_self world0 [] plain_tls) [] =
       (PStr ''node1'', [node_lookup world0 (new_self world0 [] plain_tls)])"
    using env cfg vfy names lookup_fails
      locate_host_order [of world0 "''10.0.0.1''"
        "new_self world0 [] plain_tls" "[]" "PStr ''10.0.0.7''"]
    by (simp add: prod_eq_iff)
  from env by_env by_config by_runtime by_lookup by_fallback show ?thesis
    by simp
qed

text \<open>
  Claim C1, as amended. In every run of the locator the HTTP probe, a GET of the health
  path at http://<host>:<port> (port 10255 by default), is the first probe. If that call
  returns a response, whatever its status, the base URL returned has scheme http and no
  HTTPS probe is issued. If the call raises (a connection error, a timeout), the locator
  probes the health path at https://<host>:<port> (port 10250 by default) with the
  resolved certificate and verify settings; when that call returns a response the base
  URL returned has scheme https, and when it raises the locator raises the same error.
\<close>

theorem locate_kubelet_probe_order:
  "(\<exists>later. snd (locate_kubelet w self instance) =
      snd (locate_host w self instance) @ http_probe w self instance # later) \<and>
   (http_get w (http_probe w self instance) = Inr r \<longrightarrow>
      locate_kubelet w self instance =
        (Inr (no_auth_url w (fst (locate_host w self instance)) instance),
         snd (locate_host w self instance) @ [http_probe w self instance])) \<and>
   (http_get w (http_probe w self instance) = Inl ex \<and>
    http_get w (https_probe w self instance) = Inr r \<longrightarrow>
      locate_kubelet w self instance =
        (Inr (https_url w (fst (locate_host w self instance)) instance),
         snd (locate_host w self instance) @
         [http_probe w self instance, https_probe w self instance])) \<and>
   (http_get w (http_probe w self instance) = Inl ex \<and>
    http_get w (https_probe w self instance) = Inl ex' \<longrightarrow>
      locate_kubelet w self instance =
        (Inl ex', snd (locate_host w self instance) @
                  [http_probe w self instance, https_probe w self instance])) \<and>
   req_url (http_probe w self instance) =
     urljoin w (no_auth_url w (fst (locate_host w self instance)) instance) ''/healthz'' \<and>
   req_url (https_probe w self instance) =
     urljoin w (https_url w (fst (locate_host w self instance)) instance) ''/healthz'' \<and>
   req_verify (https_probe w self instance) = verify (tls_settings self) \<and>
   req_cert (https_probe w self instance) = kubelet_client_cert (tls_settings self) \<and>
   take 7 (no_auth_url w host instance) = ''http://'' \<and>
   take 8 (https_url w host instance) = ''https://'' \<and>
   (map_of instance ''kubelet_port'' = None \<longrightarrow>
      no_auth_url w host instance = ''http://'' @ py_str w host @ '':10255'' \<and>
      https_url w host instance = ''https://'' @ py_str w host @ '':10250'')"
proof -
  have run: "(http_get w (http_probe w self instance) = Inr r \<longrightarrow>
      locate_kubelet w self instance =
        (Inr (no_auth_url w (fst (locate_host w self instance)) instance),
         snd (locate_host w self instance) @ [http_probe w self instance])) \<and>
   (http_get w (http_probe w self instance) = Inl ex \<and>
    http_get w (https_probe w self instance) = Inr r \<longrightarrow>
      locate_kubelet w self instance =
        (Inr (https_url w (fst (locate_host w self instance)) instance),
         snd (locate_host w self instance) @
         [http_probe w self instance, https_probe w self instance])) \<and>
   (http_get w (http_probe w self instance) = Inl ex \<and>
    http_get w (https_probe w self instance) = Inl ex' \<longrightarrow>
      locate_kubelet w self instance =
        (Inl ex', snd (locate_host w self instance) @
                  [http_probe w self instance, https_probe w self instance]))"
    by (simp add: locate_kubelet_unfold)
  have probes: "req_url (http_probe w self instance) =
     urljoin w (no_auth_url w (fst (locate_host w self instance)) instance) ''/healthz'' \<and>
   req_url (https_probe w self instance) =
     urljoin w (https_url w (fst (locate_host w self instance)) instance) ''/healthz'' \<and>
   req_verify (https_probe w self instance) = verify (tls_settings self) \<and>
   req_cert (https_probe w self instance) = kubelet_client_cert (tls_settings self)"
    by (simp add: http_probe_def https_probe_def kubelet_request_def Let_def
        KUBELET_HEALTH_PATH_def)
  have urls: "take 7 (no_auth_url w host instance) = ''http://'' \<and>
   take 8 (https_url w host instance) = ''https://'' \<and>
   (map_of instance ''kubelet_port'' = None \<longrightarrow>
      no_auth_url w host instance = ''http://'' @ py_str w host @ '':10255'' \<and>
      https_url w host instance = ''https://'' @ py_str w host @ '':10250'')"
    by (simp add: no_auth_url_def https_url_def dict_get_def Let_def
        DEFAULT_HTTP_KUBELET_PORT_def DEFAULT_HTTPS_KUBELET_PORT_def str_int_10255
        str_int_10250)
  have first: "\<exists>later. snd (locate_kubelet w self instance) =
      snd (locate_host w self instance) @ http_probe w self instance # later"
    by (simp add: locate_kubelet_unfold split: sum.splits)
  from first run probes urls show ?thesis by simp
qed

lemma probes_host_instance:
  "req_url (http_probe (world0\<lparr>http_get := g\<rparr>)
              (new_self (world0\<lparr>http_get := g\<rparr>) host_instance plain_tls) host_instance) =
     ''http://10.0.0.7:10255/healthz''"
  "req_url (https_probe (world0\<lparr>http_get := g\<rparr>)
              (new_self (world0\<lparr>http_get := g\<rparr>) host_instance plain_tls) host_instance) =
     ''https://10.0.0.7:10250/healthz''"
  "locate_host (world0\<lparr>http_get := g\<rparr>)
     (new_self (world0\<lparr>http_get := g\<rparr>) host_instance plain_tls) host_instance =
     (PStr ''10.0.0.7'', [])"
  by (simp_all add: http_probe_def https_probe_def kubelet_request_def locate_host_def
      environ_get_def py_or_def dict_get_def host_instance_def no_auth_url_def https_url_def
      world0_def Let_def KUBELET_HEALTH_PATH_def DEFAULT_HTTP_KUBELET_PORT_def
      DEFAULT_HTTPS_KUBELET_PORT_def str_int_10255 str_int_10250)

lemma base_urls_host_instance:
  "no_auth_url w (PStr ''10.0.0.7'') host_instance = ''http://10.0.0.7:10255''"
  "https_url w (PStr ''10.0.0.7'') host_instance = ''https://10.0.0.7:10250''"
  by (simp_all add: no_auth_url_def https_url_def dict_get_def host_instance_def
      DEFAULT_HTTP_KUBELET_PORT_def DEFAULT_HTTPS_KUBELET_PORT_def str_int_10255
      str_int_10250)

theorem locate_kubelet_probe_order_witness:
  "locate_kubelet (world_answering (Inr ok_response))
     (new_self (world_answering (Inr ok_response)) host_instance plain_tls) host_instance =
     (Inr ''http://10.0.0.7:10255'',
      [http_probe (world_answering (Inr ok_response))
         (new_self (world_answering (Inr ok_response)) host_instance plain_tls)
         host_instance]) \<and>
   locate_kubelet world_https_only (new_self world_https_only host_instance plain_tls)
     host_instance =
     (Inr ''https://10.0.0.7:10250'',
      [http_probe world_https_only (new_self world_https_only host_instance plain_tls)
         host_instance,
       https_probe world_https_only (new_self world_https_only host_instance plain_tls)
         host_instance]) \<and>
   locate_kubelet (world_answering (Inl Timeout))
     (new_self (world_answering (Inl Timeout)) host_instance plain_tls) host_instance =
     (Inl Timeout,
      [http_probe (world_answering (Inl Timeout))
         (new_self (world_answering (Inl Timeout)) host_instance plain_tls) host_instance,
       https_probe (world_answering (Inl Timeout))
         (new_self (world_answering (Inl Timeout)) host_instance plain_tls)
         host_instance])"
proof -
  have answers:
    "http_get world_https_only
       (http_probe world_https_only (new_self world_https_only host_instance plain_tls)
          host_instance) = Inl ConnectionError"
    "http_get world_https_only
       (https_probe world_https_only (new_self world_https_only host_instance plain_tls)
          host_instance) = Inr ok_response"
    unfolding world_https_only_def
    by (simp_all add: probes_host_instance startswith_def ok_response_def)
  have first:
    "locate_kubelet (world_answering (Inr ok_response))
       (new_self (world_answering (Inr ok_response)) host_instance plain_tls) host_instance =
       (Inr ''http://10.0.0.7:10255'',
        [http_probe (world_answering (Inr ok_response))
           (new_self (world_answering (Inr ok_response)) host_instance plain_tls)
           host_instance])"
    using locate_kubelet_probe_order [of "world_answering (Inr ok_response)"
        "new_self (world_answering (Inr ok_response)) host_instance plain_tls" host_instance
        ok_response Timeout Timeout "PStr ''10.0.0.7''"]
    by (simp add: world_answering_def probes_host_instance base_urls_host_instance)
  have second:
    "locate_kubelet world_https_only (new_self world_https_only host_instance plain_tls)
       host_instance =
       (Inr ''https://10.0.0.7:10250'',
        [http_probe world_https_only (new_self world_https_only host_instance plain_tls)
           host_instance,
         https_probe world_https_only (new_self world_https_only host_instance plain_tls)
           host_instance])"
    using answers locate_kubelet_probe_order [of world_https_only
        "new_self world_https_only host_instance plain_tls" host_instance
        ok_response ConnectionError Timeout "PStr ''10.0.0.7''"]
    by (simp add: world_https_only_def probes_host_instance base_urls_host_instance)
  have third:
    "locate_kubelet (world_answering (Inl Timeout))
       (new_self (world_answering (Inl Timeout)) host_instance plain_tls) host_instance =
       (Inl Timeout,
        [http_probe (world_answering (Inl Timeout))
           (new_self (world_answering (Inl Timeout)) host_instance plain_tls) host_instance,
         https_probe (world_answering (Inl Timeout))
           (new_self (world_answering (Inl Timeout)) host_instance plain_tls)
           host_instance])"
    using locate_kubelet_probe_order [of "world_answering (Inl Timeout)"
        "new_self (world_answering (Inl Timeout)) host_instance plain_tls" host_instance
        ok_response Timeout Timeout "PStr ''10.0.0.7''"]
    by (simp add: world_answering_def probes_host_instance)
  from first second third show ?thesis by simp
qed

text \<open>
  The claim as stated fails for a status that is not 2xx: when the HTTP probe is answered
  with status 500, the locator returns the http base URL, and the HTTP probe is the only
  request it has issued.
\<close>

theorem locate_kubelet_http_500:
  "http_get (world_answering (Inr server_error))
     (http_probe (world_answering (Inr server_error))
        (new_self (world_answering (Inr server_error)) host_instance plain_tls)
        host_instance) = Inr server_error \<and>
   status_code server_error = 500 \<and>
   req_url (http_probe (world_answering (Inr server_error))
        (new_self (world_answering (Inr server_error)) host_instance plain_tls)
        host_instance) = ''http://10.0.0.7:10255/healthz'' \<and>
   locate_kubelet (world_answering (Inr server_error))
     (new_self (world_answering (Inr server_error)) host_instance plain_tls) host_instance =
     (Inr ''http://10.0.0.7:10255'',
      [http_probe (world_answering (Inr server_error))
         (new_self (world_answering (Inr server_error)) host_instance plain_tls)
         host_instance])"
  by (simp add: locate_kubelet_unfold world_answering_def probes_host_instance
      base_urls_host_instance server_error_def)

section \<open>Construction\<close>

text \<open>
  Claim C2. If the HTTP probe and the HTTPS probe both raise, the constructor raises the
  error of the HTTPS probe and yields no instance; the object under construction has no
  kubelet base URL and none of the attributes derived from it.
\<close>

theorem init_fails_without_kubelet:
  "(if instance = PNone then load_instance w else instance) = PDict inst \<and>
   init_tls_settings w inst = Inr tls \<and>
   http_get w (http_probe w (new_self w inst tls) inst) = Inl ex \<and>
   http_get w (https_probe w (new_self w inst tls) inst) = Inl ex' \<longrightarrow>
     fst (init w instance) = Inl ex' \<and>
     kubelet_api_url (new_self w inst tls) = None \<and>
     kubelet_host (new_self w inst tls) = None \<and>
     pods_list_url (new_self w inst tls) = None \<and>
     kube_health_url (new_self w inst tls) = None"
  by (simp add: init_def locate_kubelet_unfold Let_def new_self_def)

theorem init_fails_without_kubelet_witness:
  "(if PNone = PNone then load_instance world0 else PNone) = PDict [] \<and>
   init_tls_settings world0 [] = Inr plain_tls \<and>
   http_get world0 (http_probe world0 (new_self world0 [] plain_tls) []) =
     Inl ConnectionError \<and>
   http_get world0 (https_probe world0 (new_self world0 [] plain_tls) []) =
     Inl ConnectionError \<and>
   fst (init world0 PNone) = Inl ConnectionError"
proof -
  have loaded: "(if PNone = PNone then load_instance world0 else PNone) = PDict []"
    by (simp add: load_instance_def world0_def and_then_def)
  have tls: "init_tls_settings world0 [] = Inr plain_tls"
    by (simp add: init_tls_settings_def dict_get_def plain_tls_def DEFAULT_TLS_VERIFY_def)
  have refused: "http_get world0 rq = Inl ConnectionError" for rq
    by (simp add: world0_def)
  from loaded tls refused
    init_fails_without_kubelet [of PNone world0 "[]" plain_tls ConnectionError ConnectionError]
  show ?thesis by simp
qed

section \<open>Node identity\<close>

lemma scan_pods_skip:
  "\<forall>p\<in>set pre. \<exists>n. pod_name p = Inr n \<and> n \<noteq> host_name self \<Longrightarrow>
   scan_pods self (pre @ rest) = scan_pods self rest"
  by (induction pre) (auto simp: pod_name_def)

lemma scan_pods_match:
  assumes "pod_name (PDict pod) = Inr (host_name self)"
    and "dict_get pod ''status'' (PDict []) = PDict status"
    and "dict_get pod ''spec'' (PDict []) = PDict spec"
  shows "scan_pods self (PDict pod # post) =
           (None, self\<lparr>node_ip := dict_get status ''hostIP'' (PStr []),
                        node_name := dict_get spec ''nodeName'' (PStr [])\<rparr>)"
  using assms by (simp add: pod_name_def and_then_def)

lemma retrieve_pods_list_trace:
  "pods_list_url self = Some url \<Longrightarrow>
   snd (retrieve_pods_list w self) = [kubelet_request w self url True 10]"
  by (simp add: retrieve_pods_list_def perform_kubelet_query_def Let_def)

lemma get_node_info_fetches:
  "node_ip self = PNone \<or> node_name self = PNone \<Longrightarrow>
   snd (get_node_info w self) = snd (retrieve_pods_list w self)"
  by (auto simp: get_node_info_def fetch_host_data_def Let_def split_beta
           split: sum.splits option.splits prod.splits)

lemma get_node_info_failed:
  "node_ip self = PNone \<or> node_name self = PNone \<Longrightarrow>
   fst (retrieve_pods_list w self) = Inl ex \<Longrightarrow>
   fst (get_node_info w self) = (Inr (node_ip self, node_name self), self)"
  by (auto simp: get_node_info_def fetch_host_data_def Let_def split_beta and_then_def)

lemma get_node_info_found:
  assumes "node_ip self = PNone \<or> node_name self = PNone"
    and "fst (retrieve_pods_list w self) = Inr (PDict body)"
    and "map_of body ''items'' = Some (PList (pre @ PDict pod # post))"
    and "\<forall>p\<in>set pre. \<exists>n. pod_name p = Inr n \<and> n \<noteq> host_name self"
    and "pod_name (PDict pod) = Inr (host_name self)"
    and "dict_get pod ''status'' (PDict []) = PDict status"
    and "dict_get pod ''spec'' (PDict []) = PDict spec"
  shows "fst (get_node_info w self) =
           (Inr (dict_get status ''hostIP'' (PStr []), dict_get spec ''nodeName'' (PStr [])),
            self\<lparr>node_ip := dict_get status ''hostIP'' (PStr []),
                 node_name := dict_get spec ''nodeName'' (PStr [])\<rparr>)"
proof -
  have scan: "scan_pods self (pre @ PDict pod # post) =
           (None, self\<lparr>node_ip := dict_get status ''hostIP'' (PStr []),
                        node_name := dict_get spec ''nodeName'' (PStr [])\<rparr>)"
    using assms(4-7) by (simp add: scan_pods_skip scan_pods_match del: scan_pods.simps)
  have "fst (fetch_host_data w self) = scan_pods self (pre @ PDict pod # post)"
    using assms(2,3)
    by (simp add: fetch_host_data_def Let_def split_beta and_then_def dict_get_def py_or_def)
  with scan assms(1) show ?thesis
    by (auto simp: get_node_info_def split: prod.splits option.splits)
qed

lemma get_node_info_cached:
  "node_ip self \<noteq> PNone \<Longrightarrow> node_name self \<noteq> PNone \<Longrightarrow>
   get_node_info w self = ((Inr (node_ip self, node_name self), self), [])"
  by (simp add: get_node_info_def)

text \<open>
  Claim C7. An identity query with a null field fetches the pod list. If the retrieval
  fails, the query returns the fields as they were (null stays null, never the empty
  string), the instance is unchanged, and so a later query fetches again. When the scan
  finds the pod whose name is the local host name, the query returns the pair of
  status.hostIP and spec.nodeName, each replaced by the empty string independently when
  it is missing, and stores it; once both stored values are not null, every later query
  returns the same pair and issues no request.
\<close>

theorem get_node_info_claim:
  "((node_ip self = PNone \<or> node_name self = PNone) \<and> pods_list_url self = Some url \<longrightarrow>
      snd (get_node_info w self) = [kubelet_request w self url True 10]) \<and>
   ((node_ip self = PNone \<or> node_name self = PNone) \<and>
    fst (retrieve_pods_list w self) = Inl ex \<longrightarrow>
      fst (get_node_info w self) = (Inr (node_ip self, node_name self), self)) \<and>
   ((node_ip self = PNone \<or> node_name self = PNone) \<and>
    fst (retrieve_pods_list w self) = Inr (PDict body) \<and>
    map_of body ''items'' = Some (PList (pre @ PDict pod # post)) \<and>
    (\<forall>p\<in>set pre. \<exists>n. pod_name p = Inr n \<and> n \<noteq> host_name self) \<and>
    pod_name (PDict pod) = Inr (host_name self) \<and>
    (case map_of pod ''status'' of None \<Rightarrow> PDict [] | Some v \<Rightarrow> v) = PDict status \<and>
    (case map_of pod ''spec'' of None \<Rightarrow> PDict [] | Some v \<Rightarrow> v) = PDict spec \<and>
    ip = (case map_of status ''hostIP'' of None \<Rightarrow> PStr [] | Some v \<Rightarrow> v) \<and>
    nm = (case map_of spec ''nodeName'' of None \<Rightarrow> PStr [] | Some v \<Rightarrow> v) \<longrightarrow>
      fst (get_node_info w self) = (Inr (ip, nm), self\<lparr>node_ip := ip, node_name := nm\<rparr>) \<and>
      (ip \<noteq> PNone \<and> nm \<noteq> PNone \<longrightarrow>
         get_node_info w' (self\<lparr>node_ip := ip, node_name := nm\<rparr>) =
           ((Inr (ip, nm), self\<lparr>node_ip := ip, node_name := nm\<rparr>), [])))"
proof (intro conjI impI)
  assume "(node_ip self = PNone \<or> node_name self = PNone) \<and> pods_list_url self = Some url"
  then show "snd (get_node_info w self) = [kubelet_request w self url True 10]"
    by (simp add: get_node_info_fetches retrieve_pods_list_trace)
next
  assume "(node_ip self = PNone \<or> node_name self = PNone) \<and>
    fst (retrieve_pods_list w self) = Inl ex"
  then show "fst (get_node_info w self) = (Inr (node_ip self, node_name self), self)"
    by (simp add: get_node_info_failed)
next
  assume a: "(node_ip self = PNone \<or> node_name self = PNone) \<and>
    fst (retrieve_pods_list w self) = Inr (PDict body) \<and>
    map_of body ''items'' = Some (PList (pre @ PDict pod # post)) \<and>
    (\<forall>p\<in>set pre. \<exists>n. pod_name p = Inr n \<and> n \<noteq> host_name self) \<and>
    pod_name (PDict pod) = Inr (host_name self) \<and>
    (case map_of pod ''status'' of None \<Rightarrow> PDict [] | Some v \<Rightarrow> v) = PDict status \<and>
    (case map_of pod ''spec'' of None \<Rightarrow> PDict [] | Some v \<Rightarrow> v) = PDict spec \<and>
    ip = (case map_of status ''hostIP'' of None \<Rightarrow> PStr [] | Some v \<Rightarrow> v) \<and>
    nm = (case map_of spec ''nodeName'' of None \<Rightarrow> PStr [] | Some v \<Rightarrow> v)"
  then have ip: "ip = dict_get status ''hostIP'' (PStr [])"
    and nm: "nm = dict_get spec ''nodeName'' (PStr [])"
    by (simp_all add: dict_get_def)
  from a have "fst (get_node_info w self) =
           (Inr (dict_get status ''hostIP'' (PStr []), dict_get spec ''nodeName'' (PStr [])),
            self\<lparr>node_ip := dict_get status ''hostIP'' (PStr []),
                 node_name := dict_get spec ''nodeName'' (PStr [])\<rparr>)"
    by (intro get_node_info_found [where body = body and pre = pre and pod = pod and post = post])
       (simp_all add: dict_get_def)
  with ip nm
  show "fst (get_node_info w self) = (Inr (ip, nm), self\<lparr>node_ip := ip, node_name := nm\<rparr>)"
    by simp
  show "get_node_info w' (self\<lparr>node_ip := ip, node_name := nm\<rparr>) =
           ((Inr (ip, nm), self\<lparr>node_ip := ip, node_name := nm\<rparr>), [])"
    if "ip \<noteq> PNone \<and> nm \<noteq> PNone"
    using that by (simp add: get_node_info_cached)
qed

theorem get_node_info_claim_witness:
  "fst (retrieve_pods_list world0 agent_self) = Inl ConnectionError \<and>
   get_node_info world0 agent_self =
     ((Inr (PNone, PNone), agent_self),
      [kubelet_request world0 agent_self ''http://node1:10255/pods/'' True 10]) \<and>
   fst (get_node_info (world_pods [other_pod, PDict agent_pod]) agent_self) =
     (Inr (PStr ''10.0.0.5'', PStr ''node-a''),
      agent_self\<lparr>node_ip := PStr ''10.0.0.5'', node_name := PStr ''node-a''\<rparr>) \<and>
   get_node_info world0 (agent_self\<lparr>node_ip := PStr ''10.0.0.5'', node_name := PStr ''node-a''\<rparr>) =
     ((Inr (PStr ''10.0.0.5'', PStr ''node-a''),
       agent_self\<lparr>node_ip := PStr ''10.0.0.5'', node_name := PStr ''node-a''\<rparr>), []) \<and>
   fst (get_node_info (world_pods [PDict bare_pod]) agent_self) =
     (Inr (PStr [], PStr []), agent_self\<lparr>node_ip := PStr [], node_name := PStr []\<rparr>)"
proof -
  have self: "node_ip agent_self = PNone" "node_name agent_self = PNone"
    "pods_list_url agent_self = Some ''http://node1:10255/pods/''"
    "host_name agent_self = PStr ''dd-agent-x7''"
    by (simp_all add: agent_self_def new_self_def)
  have refused: "fst (retrieve_pods_list world0 agent_self) = Inl ConnectionError"
    by (simp add: retrieve_pods_list_def perform_kubelet_query_def self world0_def
        and_then_def Let_def)
  have served: "fst (retrieve_pods_list (world_pods ps) agent_self) =
      Inr (PDict [(''items'', PList ps)])" for ps
    by (simp add: retrieve_pods_list_def perform_kubelet_query_def self world_pods_def
        and_then_def json_def Let_def)
  have names: "pod_name other_pod = Inr (PStr ''redis-0'')"
    "pod_name (PDict agent_pod) = Inr (PStr ''dd-agent-x7'')"
    "pod_name (PDict bare_pod) = Inr (PStr ''dd-agent-x7'')"
    by (simp_all add: pod_name_def other_pod_def agent_pod_def bare_pod_def and_then_def
        dict_get_def)
  have failed: "get_node_info world0 agent_self =
     ((Inr (PNone, PNone), agent_self),
      [kubelet_request world0 agent_self ''http://node1:10255/pods/'' True 10])"
    using self refused
      get_node_info_claim [where self = agent_self and w = world0
        and url = "''http://node1:10255/pods/''" and ex = ConnectionError]
    by (simp add: prod_eq_iff)
  have found:
    "fst (get_node_info (world_pods [other_pod, PDict agent_pod]) agent_self) =
       (Inr (PStr ''10.0.0.5'', PStr ''node-a''),
        agent_self\<lparr>node_ip := PStr ''10.0.0.5'', node_name := PStr ''node-a''\<rparr>) \<and>
     get_node_info world0
       (agent_self\<lparr>node_ip := PStr ''10.0.0.5'', node_name := PStr ''node-a''\<rparr>) =
       ((Inr (PStr ''10.0.0.5'', PStr ''node-a''),
         agent_self\<lparr>node_ip := PStr ''10.0.0.5'', node_name := PStr ''node-a''\<rparr>), [])"
    using self names served [of "[other_pod, PDict agent_pod]"]
      get_node_info_claim [where self = agent_self
        and w = "world_pods [other_pod, PDict agent_pod]"
        and body = "[(''items'', PList [other_pod, PDict agent_pod])]"
        and pre = "[other_pod]" and pod = agent_pod and post = "[]"
        and status = "[(''hostIP'', PStr ''10.0.0.5'')]"
        and spec = "[(''nodeName'', PStr ''node-a'')]"
        and ip = "PStr ''10.0.0.5''" and nm = "PStr ''node-a''" and w' = world0]
    by (simp add: agent_pod_def)
  have defaults:
    "fst (get_node_info (world_pods [PDict bare_pod]) agent_self) =
       (Inr (PStr [], PStr []), agent_self\<lparr>node_ip := PStr [], node_name := PStr []\<rparr>)"
    using self names served [of "[PDict bare_pod]"]
      get_node_info_claim [where self = agent_self
        and w = "world_pods [PDict bare_pod]"
        and body = "[(''items'', PList [PDict bare_pod])]"
        and pre = "[]" and pod = bare_pod and post = "[]"
        and status = "[]" and spec = "[]"
        and ip = "PStr []" and nm = "PStr []" and w' = world0]
    by (simp add: bare_pod_def)
  from refused failed found defaults show ?thesis by simp
qed

section \<open>Pod labels\<close>

lemma add_labels_closed:
  "add_labels w key excluded ls kl =
     (if label_tags w excluded ls = [] then kl
      else kl(key \<mapsto> dd_get kl key @ label_tags w excluded ls))"
proof (induction ls arbitrary: kl)
  case Nil
  then show ?case by (simp add: label_tags_def)
next
  case (Cons kv rest)
  obtain k v where kv: "kv = (k, v)" by (cases kv)
  show ?case
  proof (cases "k \<in> set excluded")
    case True
    with kv Cons show ?thesis by (simp add: label_tags_def)
  next
    case False
    define tag where "tag = ''kube_'' @ k @ '':'' @ py_str w v"
    define kl1 where "kl1 = kl(key \<mapsto> dd_get kl key @ [tag])"
    have tags: "label_tags w excluded (kv # rest) = tag # label_tags w excluded rest"
      using False kv by (simp add: label_tags_def tag_def)
    have "add_labels w key excluded (kv # rest) kl = add_labels w key excluded rest kl1"
      using False kv by (simp add: kl1_def tag_def)
    also have "\<dots> = (if label_tags w excluded rest = [] then kl1
                      else kl1(key \<mapsto> dd_get kl1 key @ label_tags w excluded rest))"
      by (rule Cons.IH)
    also have "\<dots> = kl(key \<mapsto> dd_get kl key @ (tag # label_tags w excluded rest))"
      by (simp add: kl1_def dd_get_def)
    finally show ?thesis
      by (simp add: tags)
  qed
qed

lemma py_get_Inr: "py_get v k dflt = Inr x \<longleftrightarrow> (\<exists>d. v = PDict d \<and> x = dict_get d k dflt)"
  by (cases v) auto

lemma extract_pods_Cons:
  assumes "extract_pods w excluded (pod # rest) kl = Inr kl'"
  shows "extract_pods w excluded rest (pod_step w excluded kl pod) = Inr kl'"
proof -
  from assms obtain p m where pod: "pod = PDict p"
    and m: "dict_get p ''metadata'' (PDict []) = PDict m"
    by (auto simp: and_then_Inr py_get_Inr)
  show ?thesis
  proof (cases "py_truthy (dict_get m ''name'' PNone) \<and>
                py_truthy (dict_get m ''labels'' PNone) \<and>
                py_truthy (dict_get m ''namespace'' PNone)")
    case True
    with assms pod m obtain ls where ls: "dict_get m ''labels'' PNone = PDict ls"
      by (cases "dict_get m ''labels'' PNone") (auto simp: and_then_def)
    with True have "map_of m ''labels'' = Some (PDict ls)" "ls \<noteq> []"
      by (auto simp: dict_get_def split: option.splits)
    with assms pod m True ls show ?thesis
      by (simp add: and_then_def pod_step_def pod_entry_def add_labels_closed)
  next
    case False
    with pod m have "pod_entry w excluded pod = None"
      by (auto simp: pod_entry_def dict_get_def split: option.splits pyval.splits)
    with assms pod m False show ?thesis
      by (auto simp: and_then_def pod_step_def)
  qed
qed

lemma pod_step_dd_get:
  "dd_get (pod_step w excluded kl pod) key =
     dd_get kl key @ (case pod_entry w excluded pod of
                        Some (k, tags) \<Rightarrow> if k = key then tags else []
                      | None \<Rightarrow> [])"
  by (auto simp: pod_step_def dd_get_def split: option.splits)

lemma pod_step_None:
  "pod_step w excluded kl pod key = None \<longleftrightarrow>
     kl key = None \<and> (case pod_entry w excluded pod of
                        Some (k, tags) \<Rightarrow> if k = key then tags else []
                      | None \<Rightarrow> []) = []"
  by (auto simp: pod_step_def split: option.splits)

lemma extract_pods_Inr:
  "extract_pods w excluded pods kl = Inr kl' \<Longrightarrow>
   dd_get kl' key = dd_get kl key @ tags_for w excluded pods key \<and>
   (kl' key = None \<longleftrightarrow> kl key = None \<and> tags_for w excluded pods key = [])"
proof (induction pods arbitrary: kl)
  case Nil
  then show ?case by (simp add: tags_for_def)
next
  case (Cons pod rest)
  from Cons.prems have "extract_pods w excluded rest (pod_step w excluded kl pod) = Inr kl'"
    by (rule extract_pods_Cons)
  from Cons.IH [OF this] show ?case
    by (simp add: pod_step_dd_get pod_step_None tags_for_def)
qed

lemma extract_pods_ok:
  "\<forall>p\<in>set pods. pod_ok p \<Longrightarrow> \<exists>kl'. extract_pods w excluded pods kl = Inr kl'"
proof (induction pods arbitrary: kl)
  case Nil
  then show ?case by simp
next
  case (Cons pod rest)
  then have ok: "pod_ok pod"
    and rest: "\<And>kl. \<exists>kl'. extract_pods w excluded rest kl = Inr kl'"
    by simp_all
  from ok obtain p m where pod: "pod = PDict p"
    and m: "dict_get p ''metadata'' (PDict []) = PDict m"
    by (auto simp: pod_ok_def split: pyval.splits)
  with ok have l: "(\<exists>ls. dict_get m ''labels'' PNone = PDict ls) \<or>
                  \<not> py_truthy (dict_get m ''labels'' PNone)"
    by (auto simp: pod_ok_def split: pyval.splits)
  with pod m rest show ?case
    by (auto simp: and_then_def)
qed

lemma extract_kube_labels_items:
  "map_of pods_list ''items'' = Some (PList pods) \<Longrightarrow>
   extract_kube_labels w (PDict pods_list) excluded_keys =
     extract_pods w (case excluded_keys of None \<Rightarrow> [] | Some ks \<Rightarrow> ks) pods Map.empty"
  by (cases pods)
     (simp_all add: extract_kube_labels_def dict_get_def py_or_def and_then_def
        del: extract_pods.simps)

text \<open>
  Claim C8. Whenever \<^verbatim>\<open>extract_kube_labels\<close> returns for a pod list and a list of excluded
  keys, the tags it holds for a key are, in the order of the pod list, the tags of the
  pod items that have a name, a namespace and a non-empty label map and whose key
  \<^verbatim>\<open><namespace>/<name>\<close> it is: one tag \<^verbatim>\<open>kube_<key>:<value>\<close> per label that is not excluded, in
  the iteration order of the labels. All other pod items contribute nothing, and a key
  has an entry exactly when it has a tag (the defaultdict answers the empty list for any
  other key). For a pod list whose items are well-formed the function returns.
\<close>

theorem extract_kube_labels_claim:
  "(extract_kube_labels w (PDict pods_list) excluded_keys = Inr kube_labels \<and>
    map_of pods_list ''items'' = Some (PList pods) \<and>
    excluded = (case excluded_keys of None \<Rightarrow> [] | Some ks \<Rightarrow> ks) \<longrightarrow>
      dd_get kube_labels key = tags_for w excluded pods key \<and>
      (kube_labels key = None \<longleftrightarrow> tags_for w excluded pods key = [])) \<and>
   (map_of pods_list ''items'' = Some (PList pods) \<and> (\<forall>p\<in>set pods. pod_ok p) \<longrightarrow>
      (\<exists>kube_labels. extract_kube_labels w (PDict pods_list) excluded_keys = Inr kube_labels))"
proof (intro conjI impI)
  assume a: "extract_kube_labels w (PDict pods_list) excluded_keys = Inr kube_labels \<and>
    map_of pods_list ''items'' = Some (PList pods) \<and>
    excluded = (case excluded_keys of None \<Rightarrow> [] | Some ks \<Rightarrow> ks)"
  then have "extract_pods w excluded pods Map.empty = Inr kube_labels"
    using extract_kube_labels_items [of pods_list pods w excluded_keys] by simp
  from extract_pods_Inr [OF this, of key]
  show "dd_get kube_labels key = tags_for w excluded pods key"
    and "kube_labels key = None \<longleftrightarrow> tags_for w excluded pods key = []"
    by (simp_all add: dd_get_def)
next
  assume a: "map_of pods_list ''items'' = Some (PList pods) \<and> (\<forall>p\<in>set pods. pod_ok p)"
  then have "extract_kube_labels w (PDict pods_list) excluded_keys =
      extract_pods w (case excluded_keys of None \<Rightarrow> [] | Some ks \<Rightarrow> ks) pods Map.empty"
    by (simp add: extract_kube_labels_items)
  with a extract_pods_ok [of pods w "case excluded_keys of None \<Rightarrow> [] | Some ks \<Rightarrow> ks" Map.empty]
  show "\<exists>kube_labels. extract_kube_labels w (PDict pods_list) excluded_keys = Inr kube_labels"
    by simp
qed

theorem extract_kube_labels_claim_witness:
  "extract_kube_labels world0 (PDict [(''items'', PList [labelled_pod])]) (Some [''b'']) =
     Inr [''ns/p1'' \<mapsto> [''kube_a:1'']] \<and>
   extract_kube_labels world0 (PDict [(''items'', PList [nameless_pod, labelled_pod])])
     (Some [''b'']) = Inr [''ns/p1'' \<mapsto> [''kube_a:1'']] \<and>
   tags_for world0 [''b''] [nameless_pod, labelled_pod] ''ns/p1'' = [''kube_a:1''] \<and>
   pod_ok nameless_pod \<and> pod_ok labelled_pod"
proof -
  have single:
    "extract_kube_labels world0 (PDict [(''items'', PList [labelled_pod])]) (Some [''b'']) =
       Inr [''ns/p1'' \<mapsto> [''kube_a:1'']]"
    by (simp add: extract_kube_labels_def labelled_pod_def dict_get_def py_or_def
        and_then_def dd_get_def)
  have skipped:
    "extract_kube_labels world0 (PDict [(''items'', PList [nameless_pod, labelled_pod])])
       (Some [''b'']) = Inr [''ns/p1'' \<mapsto> [''kube_a:1'']]"
    by (simp add: extract_kube_labels_def labelled_pod_def nameless_pod_def dict_get_def
        py_or_def and_then_def dd_get_def)
  have ok: "\<forall>p\<in>set [nameless_pod, labelled_pod]. pod_ok p"
    by (simp add: pod_ok_def labelled_pod_def nameless_pod_def dict_get_def)
  from skipped ok
    extract_kube_labels_claim [of world0 "[(''items'', PList [nameless_pod, labelled_pod])]"
      "Some [''b'']" "[''ns/p1'' \<mapsto> [''kube_a:1'']]" "[nameless_pod, labelled_pod]"
      "[''b'']" "''ns/p1''"]
  have "tags_for world0 [''b''] [nameless_pod, labelled_pod] ''ns/p1'' = [''kube_a:1'']"
    by (simp add: dd_get_def)
  with single skipped ok show ?thesis by simp
qed

end
